theory Spec2Isabelle
  imports Main "HOL-Library.Sublist"
begin

section \<open>Go errors and their classification (package util)\<close>

text \<open>
  A Go \<open>error\<close> value is either \<open>nil\<close> (modelled as \<open>None\<close>) or a chain of errors.
  The chain ends in a \<open>pagerduty.APIError\<close> (status code and message) or in a plain text
  error; \<open>fmt.Errorf\<close> with \<open>%w\<close> wraps an error in a new message.
\<close>

record APIError =
  StatusCode :: int
  message :: string

datatype error =
    APIErr APIError
  | ErrorsNew string
  | Wrapped string error

fun Error :: "error \<Rightarrow> string" where
  "Error (APIErr a) = message a"
| "Error (ErrorsNew s) = s"
| "Error (Wrapped s e) = s"

text \<open>\<open>errors.As(err, &apiErr)\<close>: the first \<open>pagerduty.APIError\<close> of the chain, if any.\<close>

fun errors_As :: "error \<Rightarrow> APIError option" where
  "errors_As (APIErr a) = Some a"
| "errors_As (ErrorsNew s) = None"
| "errors_As (Wrapped s e) = errors_As e"

definition StatusBadRequest :: int where
  "StatusBadRequest = 400"

definition StatusNotFound :: int where
  "StatusNotFound = 404"

definition IsStatusCodeError :: "error option \<Rightarrow> int \<Rightarrow> bool" where
  "IsStatusCodeError err errCode =
     (case err of
        None \<Rightarrow> False
      | Some e \<Rightarrow>
          (case errors_As e of
             Some apiErr \<Rightarrow> StatusCode apiErr = errCode
           | None \<Rightarrow> False))"

definition IsBadRequestError :: "error option \<Rightarrow> bool" where
  "IsBadRequestError err = IsStatusCodeError err StatusBadRequest"

subsection \<open>The regular expression of the not-found fallback\<close>

text \<open>
  The fragment of Go's regular expressions that \<open>notFoundErrorRegexp\<close> uses: a literal
  character, \<open>.*\<close> (any run of characters other than newline) and \<open>$\<close> (end of text).
  A pattern is the concatenation of its items. \<open>MatchString\<close> is not anchored at the
  start: it looks for a match beginning at any position of the text.
\<close>

datatype re = Lit char | DotStar | EndText

fun match_here :: "re list \<Rightarrow> string \<Rightarrow> bool" where
  "match_here [] s = True"
| "match_here (Lit c # rs) [] = False"
| "match_here (Lit c # rs) (x # xs) = (x = c \<and> match_here rs xs)"
| "match_here (EndText # rs) s = (s = [] \<and> match_here rs s)"
| "match_here (DotStar # rs) [] = match_here rs []"
| "match_here (DotStar # rs) (x # xs) =
     (match_here rs (x # xs) \<or> (x \<noteq> CHR 0x0A \<and> match_here (DotStar # rs) xs))"

fun MatchString :: "re list \<Rightarrow> string \<Rightarrow> bool" where
  "MatchString p [] = match_here p []"
| "MatchString p (x # xs) = (match_here p (x # xs) \<or> MatchString p xs)"

definition notFoundErrorRegexp :: "re list" where
  "notFoundErrorRegexp = DotStar # map Lit '': 404 Not Found'' @ [EndText]"

definition IsNotFoundError :: "error option \<Rightarrow> bool" where
  "IsNotFoundError err =
     (case err of
        None \<Rightarrow> False
      | Some e \<Rightarrow>
          (case errors_As e of
             Some apiErr \<Rightarrow>
               (if StatusCode apiErr = StatusNotFound then True
                else MatchString notFoundErrorRegexp (Error e))
           | None \<Rightarrow> MatchString notFoundErrorRegexp (Error e)))"

section \<open>Framework values and diagnostics\<close>

text \<open>
  \<open>types.String\<close> of the plugin framework: null, unknown or a known string.
  \<open>ValueString\<close> returns the empty string for null and unknown.
\<close>

datatype tfString = StringNull | StringUnknown | StringValue string

fun ValueString :: "tfString \<Rightarrow> string" where
  "ValueString (StringValue v) = v"
| "ValueString StringNull = []"
| "ValueString StringUnknown = []"

fun IsNull :: "tfString \<Rightarrow> bool" where
  "IsNull StringNull = True"
| "IsNull _ = False"

fun IsUnknown :: "tfString \<Rightarrow> bool" where
  "IsUnknown StringUnknown = True"
| "IsUnknown _ = False"

text \<open>
  A diagnostic has a severity, a summary and a detail. Summaries built with
  \<open>fmt.Sprintf\<close> are kept as the format string and its arguments.
\<close>

datatype fmt_arg = ArgString string | ArgTFString tfString

datatype summary = Plain string | Sprintf string "fmt_arg list"

datatype diagnostic =
    ErrorDiagnostic summary string
  | WarningDiagnostic summary string

fun is_error :: "diagnostic \<Rightarrow> bool" where
  "is_error (ErrorDiagnostic s d) = True"
| "is_error (WarningDiagnostic s d) = False"

definition HasError :: "diagnostic list \<Rightarrow> bool" where
  "HasError ds = list_ex is_error ds"

definition AddError :: "summary \<Rightarrow> string \<Rightarrow> diagnostic list \<Rightarrow> diagnostic list" where
  "AddError s d ds = ds @ [ErrorDiagnostic s d]"

definition AddWarning :: "summary \<Rightarrow> string \<Rightarrow> diagnostic list \<Rightarrow> diagnostic list" where
  "AddWarning s d ds = ds @ [WarningDiagnostic s d]"

text \<open>
  The response of a resource or data-source operation: the diagnostics and the state.
  \<open>State = None\<close> is the removed (null) state; \<open>State.Set\<close> stores a model.
\<close>

record 'm Response =
  Diagnostics :: "diagnostic list"
  State :: "'m option"

definition RemoveResource :: "'m Response \<Rightarrow> 'm Response" where
  "RemoveResource resp = resp\<lparr>State := None\<rparr>"

definition State_Set :: "'m \<Rightarrow> 'm Response \<Rightarrow> 'm Response" where
  "State_Set m resp = resp\<lparr>State := Some m\<rparr>"

section \<open>The retry helper\<close>

text \<open>
  Modelled from the spec: \<open>retry.RetryContext\<close> of the plugin SDK (a library, not under
  \<open>src/\<close>), "a bounded retry loop (polling interval fixed, overall timeout)": the function
  is called again after a retryable error until it succeeds, returns a non-retryable
  error, or the timeout has passed; after the timeout the last error is returned.
  Time is counted in milliseconds. Attempt \<open>n\<close> costs the polling interval plus
  \<open>latency n\<close>, the time the \<open>n\<close>-th call itself takes. \<open>calls\<close> counts the attempts made
  and \<open>waited\<close> is the time at which the last attempt started or the loop gave up.
\<close>

datatype RetryError = RetryableError error | NonRetryableError error

definition Second :: nat where
  "Second = 1000"

definition Minute :: nat where
  "Minute = 60 * Second"

definition pollInterval :: nat where
  "pollInterval = 500"

definition TimeoutError :: error where
  "TimeoutError = ErrorsNew ''timeout while waiting for state to become success''"

record 's RetryResult =
  rerr :: "error option"
  rst :: 's
  calls :: nat
  waited :: nat

function RetryLoop ::
  "nat \<Rightarrow> (nat \<Rightarrow> nat) \<Rightarrow> (nat \<Rightarrow> 's \<Rightarrow> RetryError option \<times> 's)
     \<Rightarrow> nat \<Rightarrow> nat \<Rightarrow> error option \<Rightarrow> 's \<Rightarrow> 's RetryResult" where
  "RetryLoop timeout latency f elapsed n lastErr s =
     (if timeout \<le> elapsed
      then \<lparr>rerr = Some (case lastErr of None \<Rightarrow> TimeoutError | Some e \<Rightarrow> e), rst = s, calls = n, waited = elapsed\<rparr>
      else
        (case f n s of
           (None, s') \<Rightarrow> \<lparr>rerr = None, rst = s', calls = Suc n, waited = elapsed\<rparr>
         | (Some (NonRetryableError e), s') \<Rightarrow> \<lparr>rerr = Some e, rst = s', calls = Suc n, waited = elapsed\<rparr>
         | (Some (RetryableError e), s') \<Rightarrow>
             RetryLoop timeout latency f (elapsed + pollInterval + latency n) (Suc n) (Some e) s'))"
  by pat_completeness auto
termination
  by (relation "measure (\<lambda>(timeout, latency, f, elapsed, n, lastErr, s). timeout - elapsed)")
     (auto simp: pollInterval_def)

declare RetryLoop.simps [simp del]

definition RetryContext ::
  "nat \<Rightarrow> (nat \<Rightarrow> nat) \<Rightarrow> (nat \<Rightarrow> 's \<Rightarrow> RetryError option \<times> 's) \<Rightarrow> 's \<Rightarrow> 's RetryResult" where
  "RetryContext timeout latency f s = RetryLoop timeout latency f 0 0 None s"

text \<open>The time at which attempt \<open>k\<close> of a retry loop starts.\<close>

primrec elapsedBefore :: "(nat \<Rightarrow> nat) \<Rightarrow> nat \<Rightarrow> nat" where
  "elapsedBefore latency 0 = 0"
| "elapsedBefore latency (Suc k) = elapsedBefore latency k + pollInterval + latency k"

text \<open>
  The outcome of the \<open>n\<close>-th call of an API endpoint inside a retry loop: an error, or the
  decoded response.
\<close>

type_synonym 'a api = "nat \<Rightarrow> error + 'a"

section \<open>Business service (resource\_pagerduty\_business\_service.go)\<close>

text \<open>
  The wire objects \<open>pagerduty.BusinessService\<close> and \<open>pagerduty.BusinessServiceTeam\<close> of
  the API client library, and the typed model of the resource. \<open>Team\<close> is a pointer:
  \<open>None\<close> is \<open>nil\<close>.
\<close>

record BusinessServiceTeam =
  team_ID :: string
  team_Type :: string
  team_Self :: string

record BusinessService =
  bs_ID :: string
  bs_Name :: string
  bs_Type :: string
  bs_Summary :: string
  bs_Self :: string
  bs_PointOfContact :: string
  bs_HTMLUrl :: string
  bs_Description :: string
  bs_Team :: "BusinessServiceTeam option"

record resourceBusinessServiceModel =
  bsm_ID :: tfString
  bsm_Description :: tfString
  bsm_HTMLUrl :: tfString
  bsm_Name :: tfString
  bsm_PointOfContact :: tfString
  bsm_Self :: tfString
  bsm_Summary :: tfString
  bsm_Team :: tfString
  bsm_Type :: tfString

definition zero_resourceBusinessServiceModel :: resourceBusinessServiceModel where
  "zero_resourceBusinessServiceModel =
     \<lparr>bsm_ID = StringNull, bsm_Description = StringNull, bsm_HTMLUrl = StringNull,
      bsm_Name = StringNull, bsm_PointOfContact = StringNull, bsm_Self = StringNull,
      bsm_Summary = StringNull, bsm_Team = StringNull, bsm_Type = StringNull\<rparr>"

definition buildPagerdutyBusinessService :: "resourceBusinessServiceModel \<Rightarrow> BusinessService" where
  "buildPagerdutyBusinessService model =
     \<lparr>bs_ID = ValueString (bsm_ID model),
      bs_Name = ValueString (bsm_Name model),
      bs_Type = ValueString (bsm_Type model),
      bs_Summary = ValueString (bsm_Summary model),
      bs_Self = ValueString (bsm_Self model),
      bs_PointOfContact = ValueString (bsm_PointOfContact model),
      bs_HTMLUrl = ValueString (bsm_HTMLUrl model),
      bs_Description = ValueString (bsm_Description model),
      bs_Team = Some \<lparr>team_ID = ValueString (bsm_Team model), team_Type = [], team_Self = []\<rparr>\<rparr>"

definition flattenBusinessService :: "BusinessService \<Rightarrow> resourceBusinessServiceModel" where
  "flattenBusinessService src =
     (let model =
            \<lparr>bsm_ID = StringValue (bs_ID src),
             bsm_Description = StringValue (bs_Description src),
             bsm_HTMLUrl = StringValue (bs_HTMLUrl src),
             bsm_Name = StringValue (bs_Name src),
             bsm_PointOfContact = StringNull,
             bsm_Self = StringValue (bs_Self src),
             bsm_Summary = StringValue (bs_Summary src),
             bsm_Team = StringNull,
             bsm_Type = StringValue (bs_Type src)\<rparr>;
          model = (if bs_PointOfContact src \<noteq> []
                   then model\<lparr>bsm_PointOfContact := StringValue (bs_PointOfContact src)\<rparr>
                   else model);
          model = (case bs_Team src of
                     Some team \<Rightarrow> model\<lparr>bsm_Team := StringValue (team_ID team)\<rparr>
                   | None \<Rightarrow> model)
      in model)"

text \<open>
  The function retried by \<open>resourceBusinessService.Create\<close>: every error of the create
  call is returned as non-retryable; on success the id of the created object, when the
  client returned one, is stored in the plan.
\<close>

definition BusinessService_Create_attempt ::
  "error + BusinessService option \<Rightarrow> BusinessService \<Rightarrow> RetryError option \<times> BusinessService" where
  "BusinessService_Create_attempt response businessServicePlan =
     (case response of
        Inl e \<Rightarrow> (Some (NonRetryableError e), businessServicePlan)
      | Inr (Some bs) \<Rightarrow> (None, businessServicePlan\<lparr>bs_ID := bs_ID bs\<rparr>)
      | Inr None \<Rightarrow> (None, businessServicePlan))"

text \<open>The function retried by \<open>requestGetBusinessService\<close>: every error is retryable.\<close>

definition requestGetBusinessService_attempt ::
  "error + BusinessService \<Rightarrow> resourceBusinessServiceModel
     \<Rightarrow> RetryError option \<times> resourceBusinessServiceModel" where
  "requestGetBusinessService_attempt response model =
     (case response of
        Inl e \<Rightarrow> (Some (RetryableError e), model)
      | Inr businessService \<Rightarrow> (None, flattenBusinessService businessService))"

definition requestGetBusinessService_retry ::
  "(nat \<Rightarrow> nat) \<Rightarrow> BusinessService api \<Rightarrow> resourceBusinessServiceModel RetryResult" where
  "requestGetBusinessService_retry latency client =
     RetryContext (5 * Minute) latency
       (\<lambda>n. requestGetBusinessService_attempt (client n))
       zero_resourceBusinessServiceModel"

definition requestGetBusinessService ::
  "(nat \<Rightarrow> nat) \<Rightarrow> BusinessService api \<Rightarrow> string \<Rightarrow> diagnostic list
     \<Rightarrow> resourceBusinessServiceModel \<times> diagnostic list" where
  "requestGetBusinessService latency client ident diags =
     (let r = requestGetBusinessService_retry latency client;
          diags = (case rerr r of
                     Some e \<Rightarrow>
                       AddError (Sprintf ''Error reading Business Service %s'' [ArgString ident])
                         (Error e) diags
                   | None \<Rightarrow> diags)
      in (rst r, diags))"

text \<open>
  \<open>resourceBusinessService.Create\<close>. \<open>planGet\<close> is what \<open>req.Plan.Get\<close> delivers: its
  diagnostics and the decoded plan. \<open>createAPI\<close> and \<open>getAPI\<close> are the outcomes of the
  successive calls of the create and the get endpoint.
\<close>

definition resourceBusinessService_Create_retry ::
  "(nat \<Rightarrow> nat) \<Rightarrow> (BusinessService option) api \<Rightarrow> BusinessService
     \<Rightarrow> BusinessService RetryResult" where
  "resourceBusinessService_Create_retry latency client businessServicePlan =
     RetryContext (5 * Minute) latency
       (\<lambda>n. BusinessService_Create_attempt (client n)) businessServicePlan"

definition resourceBusinessService_Create ::
  "(nat \<Rightarrow> nat) \<Rightarrow> (BusinessService option) api \<Rightarrow> BusinessService api
     \<Rightarrow> diagnostic list \<times> resourceBusinessServiceModel
     \<Rightarrow> resourceBusinessServiceModel Response \<Rightarrow> resourceBusinessServiceModel Response" where
  "resourceBusinessService_Create latency createAPI getAPI planGet resp =
     (let plan = snd planGet;
          resp = resp\<lparr>Diagnostics := Diagnostics resp @ fst planGet\<rparr>
      in if HasError (Diagnostics resp) then resp
         else
           (let businessServicePlan = buildPagerdutyBusinessService plan;
                r = resourceBusinessService_Create_retry latency createAPI businessServicePlan
            in case rerr r of
                 Some e \<Rightarrow>
                   resp\<lparr>Diagnostics :=
                     AddError (Sprintf ''Error creating Business Service %s'' [ArgTFString (bsm_Name plan)])
                       (Error e) (Diagnostics resp)\<rparr>
               | None \<Rightarrow>
                   (let g = requestGetBusinessService latency getAPI (bs_ID (rst r)) (Diagnostics resp);
                        resp = resp\<lparr>Diagnostics := snd g\<rparr>
                    in if HasError (Diagnostics resp) then resp
                       else State_Set (fst g) resp)))"

section \<open>Incident custom field (resource\_pagerduty\_incident\_custom\_field.go)\<close>

text \<open>
  \<open>DefaultValue\<close> of a \<open>pagerduty.CustomField\<close> is an \<open>interface{}\<close> decoded from JSON:
  \<open>nil\<close>, a string, or a value of another type, kept with its \<open>%v\<close> rendering.
\<close>

datatype iface = NilValue | StringVal string | OtherVal string

text \<open>
  Modelled from the spec: \<open>util.IsNilFunc\<close> (package util, not under \<open>src/\<close>), the
  "nil-interface check" of the shared utilities: true for a nil interface value.
\<close>

fun IsNilFunc :: "iface \<Rightarrow> bool" where
  "IsNilFunc NilValue = True"
| "IsNilFunc (StringVal v) = False"
| "IsNilFunc (OtherVal v) = False"

record CustomField =
  cf_ID :: string
  cf_Name :: string
  cf_DisplayName :: string
  cf_DataType :: string
  cf_FieldType :: string
  cf_Description :: string
  cf_DefaultValue :: iface

record resourceIncidentCustomFieldModel =
  cfm_ID :: tfString
  cfm_Name :: tfString
  cfm_DisplayName :: tfString
  cfm_Description :: tfString
  cfm_DefaultValue :: tfString
  cfm_DataType :: tfString
  cfm_FieldType :: tfString

definition zero_resourceIncidentCustomFieldModel :: resourceIncidentCustomFieldModel where
  "zero_resourceIncidentCustomFieldModel =
     \<lparr>cfm_ID = StringNull, cfm_Name = StringNull, cfm_DisplayName = StringNull,
      cfm_Description = StringNull, cfm_DefaultValue = StringNull, cfm_DataType = StringNull,
      cfm_FieldType = StringNull\<rparr>"

fun isCustomFieldMultiValue :: "iface \<Rightarrow> bool" where
  "isCustomFieldMultiValue (StringVal v) = (v = ''multi_value'' \<or> v = ''multi_value_fixed'')"
| "isCustomFieldMultiValue _ = False"

text \<open>
  \<open>json.Marshal\<close> is only reached for the two strings accepted by
  \<open>isCustomFieldMultiValue\<close>; their JSON text is the string in double quotes, and
  marshalling a string does not fail.
\<close>

fun json_Marshal :: "iface \<Rightarrow> error + string" where
  "json_Marshal (StringVal v) = Inr ([CHR 0x22] @ v @ [CHR 0x22])"
| "json_Marshal NilValue = Inr ''null''"
| "json_Marshal (OtherVal v) = Inr v"

fun Sprintf_v :: "iface \<Rightarrow> string" where
  "Sprintf_v (StringVal v) = v"
| "Sprintf_v NilValue = ''<nil>''"
| "Sprintf_v (OtherVal v) = v"

definition flattenIncidentCustomFieldDefaultValue ::
  "iface \<Rightarrow> diagnostic list \<Rightarrow> tfString \<times> diagnostic list" where
  "flattenIncidentCustomFieldDefaultValue defaultValue diags =
     (if isCustomFieldMultiValue defaultValue
      then (case json_Marshal defaultValue of
              Inl e \<Rightarrow>
                (StringNull, AddError (Plain ''Cannot parse field's default value'') (Error e) diags)
            | Inr b \<Rightarrow> (StringValue b, diags))
      else (StringValue (Sprintf_v defaultValue), diags))"

definition flattenIncidentCustomField ::
  "CustomField \<Rightarrow> diagnostic list \<Rightarrow> resourceIncidentCustomFieldModel \<times> diagnostic list" where
  "flattenIncidentCustomField response diags =
     (let model = zero_resourceIncidentCustomFieldModel
            \<lparr>cfm_ID := StringValue (cf_ID response),
             cfm_Name := StringValue (cf_Name response),
             cfm_DisplayName := StringValue (cf_DisplayName response),
             cfm_DataType := StringValue (cf_DataType response),
             cfm_FieldType := StringValue (cf_FieldType response)\<rparr>;
          model = (if cf_Description response \<noteq> []
                   then model\<lparr>cfm_Description := StringValue (cf_Description response)\<rparr>
                   else model)
      in if \<not> IsNilFunc (cf_DefaultValue response)
         then (let d = flattenIncidentCustomFieldDefaultValue (cf_DefaultValue response) diags
               in (model\<lparr>cfm_DefaultValue := fst d\<rparr>, snd d))
         else (model, diags))"

text \<open>
  The function retried by \<open>requestGetIncidentCustomField\<close>. Its state is the captured
  \<open>model\<close> together with the diagnostics that \<open>flattenIncidentCustomField\<close> writes to.
\<close>

definition requestGetIncidentCustomField_attempt ::
  "bool \<Rightarrow> error + CustomField \<Rightarrow> resourceIncidentCustomFieldModel \<times> diagnostic list
     \<Rightarrow> RetryError option \<times> (resourceIncidentCustomFieldModel \<times> diagnostic list)" where
  "requestGetIncidentCustomField_attempt retryNotFound response s =
     (case response of
        Inl e \<Rightarrow>
          (if IsBadRequestError (Some e) then (Some (NonRetryableError e), s)
           else if \<not> retryNotFound \<and> IsNotFoundError (Some e) then (Some (NonRetryableError e), s)
           else (Some (RetryableError e), s))
      | Inr incidentCustomField \<Rightarrow> (None, flattenIncidentCustomField incidentCustomField (snd s)))"

definition requestGetIncidentCustomField ::
  "(nat \<Rightarrow> nat) \<Rightarrow> CustomField api \<Rightarrow> bool \<Rightarrow> diagnostic list
     \<Rightarrow> (resourceIncidentCustomFieldModel \<times> diagnostic list) RetryResult" where
  "requestGetIncidentCustomField latency client retryNotFound diags =
     RetryContext (2 * Minute) latency
       (\<lambda>n. requestGetIncidentCustomField_attempt retryNotFound (client n))
       (zero_resourceIncidentCustomFieldModel, diags)"

text \<open>
  \<open>resourceIncidentCustomField.Read\<close>. \<open>getAttribute\<close> is what
  \<open>req.State.GetAttribute(ctx, path.Root("id"), &id)\<close> delivers: its diagnostics and the id
  held in state.
\<close>

definition resourceIncidentCustomField_Read ::
  "(nat \<Rightarrow> nat) \<Rightarrow> CustomField api \<Rightarrow> diagnostic list \<times> tfString
     \<Rightarrow> resourceIncidentCustomFieldModel Response \<Rightarrow> resourceIncidentCustomFieldModel Response" where
  "resourceIncidentCustomField_Read latency client getAttribute resp =
     (let ident = snd getAttribute;
          resp = resp\<lparr>Diagnostics := Diagnostics resp @ fst getAttribute\<rparr>
      in if HasError (Diagnostics resp) then resp
         else
           (let r = requestGetIncidentCustomField latency client False (Diagnostics resp);
                state = fst (rst r);
                resp = resp\<lparr>Diagnostics := snd (rst r)\<rparr>
            in case rerr r of
                 Some e \<Rightarrow>
                   (if IsNotFoundError (Some e) then RemoveResource resp
                    else resp\<lparr>Diagnostics :=
                           AddError (Sprintf ''Error reading PagerDuty incident custom field %s''
                                       [ArgTFString ident])
                             (Error e) (Diagnostics resp)\<rparr>)
               | None \<Rightarrow> State_Set state resp))"

text \<open>The function retried by \<open>resourceIncidentCustomField.Create\<close>.\<close>

definition IncidentCustomField_Create_attempt ::
  "error + CustomField \<Rightarrow> CustomField \<Rightarrow> RetryError option \<times> CustomField" where
  "IncidentCustomField_Create_attempt response plan =
     (case response of
        Inl e \<Rightarrow>
          (if IsBadRequestError (Some e) then (Some (NonRetryableError e), plan)
           else (Some (RetryableError e), plan))
      | Inr created \<Rightarrow> (None, plan\<lparr>cf_ID := cf_ID created\<rparr>))"


section \<open>Extension schema data source (data\_source\_pagerduty\_extension\_schema.go)\<close>

record ExtensionSchema =
  es_ID :: string
  es_Label :: string
  es_Type :: string

record dataSourceExtensionSchemaModel =
  esm_ID :: tfString
  esm_Name :: tfString
  esm_Type :: tfString

text \<open>
  The search loop over the listed schemas. \<open>EqualFold\<close> stands for \<open>strings.EqualFold\<close>
  (equality under Unicode case folding), a parameter of the model.
\<close>

fun findExtensionSchema ::
  "(string \<Rightarrow> string \<Rightarrow> bool) \<Rightarrow> string \<Rightarrow> ExtensionSchema list
     \<Rightarrow> ExtensionSchema option \<Rightarrow> ExtensionSchema option" where
  "findExtensionSchema EqualFold searchName [] found = found"
| "findExtensionSchema EqualFold searchName (extensionSchema # rest) found =
     (if EqualFold (es_Label extensionSchema) searchName then Some extensionSchema
      else findExtensionSchema EqualFold searchName rest found)"

definition ExtensionSchema_Read_attempt ::
  "(string \<Rightarrow> string \<Rightarrow> bool) \<Rightarrow> string \<Rightarrow> error + ExtensionSchema list
     \<Rightarrow> ExtensionSchema option \<Rightarrow> RetryError option \<times> ExtensionSchema option" where
  "ExtensionSchema_Read_attempt EqualFold searchName response found =
     (case response of
        Inl e \<Rightarrow>
          (if IsBadRequestError (Some e) then (Some (NonRetryableError e), found)
           else (Some (RetryableError e), found))
      | Inr list \<Rightarrow> (None, findExtensionSchema EqualFold searchName list found))"

definition dataSourceExtensionSchema_Read_retry ::
  "(string \<Rightarrow> string \<Rightarrow> bool) \<Rightarrow> (nat \<Rightarrow> nat) \<Rightarrow> (ExtensionSchema list) api \<Rightarrow> string
     \<Rightarrow> (ExtensionSchema option) RetryResult" where
  "dataSourceExtensionSchema_Read_retry EqualFold latency client searchName =
     RetryContext (2 * Minute) latency
       (\<lambda>n. ExtensionSchema_Read_attempt EqualFold searchName (client n)) None"

definition dataSourceExtensionSchema_Read ::
  "(string \<Rightarrow> string \<Rightarrow> bool) \<Rightarrow> (nat \<Rightarrow> nat) \<Rightarrow> (ExtensionSchema list) api
     \<Rightarrow> diagnostic list \<times> tfString
     \<Rightarrow> dataSourceExtensionSchemaModel Response \<Rightarrow> dataSourceExtensionSchemaModel Response" where
  "dataSourceExtensionSchema_Read EqualFold latency client getAttribute resp =
     (let searchName = snd getAttribute;
          resp = resp\<lparr>Diagnostics := Diagnostics resp @ fst getAttribute\<rparr>
      in if HasError (Diagnostics resp) then resp
         else
           (let r = dataSourceExtensionSchema_Read_retry EqualFold latency client (ValueString searchName);
                resp = (case rerr r of
                          Some e \<Rightarrow>
                            resp\<lparr>Diagnostics :=
                              AddError (Sprintf ''Error reading PagerDuty extension schema %s''
                                          [ArgTFString searchName])
                                (Error e) (Diagnostics resp)\<rparr>
                        | None \<Rightarrow> resp)
            in case rst r of
                 None \<Rightarrow>
                   resp\<lparr>Diagnostics :=
                     AddError (Sprintf ''Unable to locate any extension schema with the name: %s''
                                 [ArgTFString searchName])
                       [] (Diagnostics resp)\<rparr>
               | Some found \<Rightarrow>
                   State_Set \<lparr>esm_ID = StringValue (es_ID found),
                              esm_Name = StringValue (es_Label found),
                              esm_Type = StringValue (es_Type found)\<rparr> resp))"

section \<open>User contact method data source (data\_source\_pagerduty\_user\_contact\_method.go)\<close>

record ContactMethod =
  cm_ID :: string
  cm_Type :: string
  cm_Label :: string
  cm_Address :: string
  cm_Blacklisted :: bool
  cm_CountryCode :: int
  cm_Enabled :: bool
  cm_SendShortEmail :: bool
  cm_DeviceType :: string

record dataSourceUserContactMethodModel =
  cmm_ID :: tfString
  cmm_UserID :: tfString
  cmm_Address :: tfString
  cmm_Blacklisted :: bool
  cmm_CountryCode :: int
  cmm_DeviceType :: tfString
  cmm_Enabled :: bool
  cmm_Label :: tfString
  cmm_SendShortEmail :: bool
  cmm_Type :: tfString

text \<open>The search loop over \<open>response.ContactMethods\<close>: it stops at the first hit.\<close>

fun findContactMethod ::
  "string \<Rightarrow> string \<Rightarrow> ContactMethod list \<Rightarrow> ContactMethod option \<Rightarrow> ContactMethod option" where
  "findContactMethod searchLabel searchType [] found = found"
| "findContactMethod searchLabel searchType (cm # rest) found =
     (if cm_Label cm = searchLabel \<or> cm_Type cm = searchType then Some cm
      else findContactMethod searchLabel searchType rest found)"

definition UserContactMethod_Read_attempt ::
  "string \<Rightarrow> string \<Rightarrow> error + ContactMethod list
     \<Rightarrow> ContactMethod option \<Rightarrow> RetryError option \<times> ContactMethod option" where
  "UserContactMethod_Read_attempt searchLabel searchType response found =
     (case response of
        Inl e \<Rightarrow>
          (if IsBadRequestError (Some e) \<or> IsNotFoundError (Some e)
           then (Some (NonRetryableError e), found)
           else (Some (RetryableError e), found))
      | Inr contactMethods \<Rightarrow> (None, findContactMethod searchLabel searchType contactMethods found))"

definition dataSourceUserContactMethod_Read_retry ::
  "(nat \<Rightarrow> nat) \<Rightarrow> (ContactMethod list) api \<Rightarrow> string \<Rightarrow> string
     \<Rightarrow> (ContactMethod option) RetryResult" where
  "dataSourceUserContactMethod_Read_retry latency client searchLabel searchType =
     RetryContext (5 * Minute) latency
       (\<lambda>n. UserContactMethod_Read_attempt searchLabel searchType (client n)) None"

text \<open>
  \<open>dataSourceUserContactMethod.Read\<close>. The three \<open>getAttribute\<close> arguments are what
  \<open>req.Config.GetAttribute\<close> delivers for \<open>user_id\<close>, \<open>label\<close> and \<open>type\<close>.
\<close>

definition dataSourceUserContactMethod_Read ::
  "(nat \<Rightarrow> nat) \<Rightarrow> (ContactMethod list) api
     \<Rightarrow> diagnostic list \<times> tfString \<Rightarrow> diagnostic list \<times> tfString \<Rightarrow> diagnostic list \<times> tfString
     \<Rightarrow> dataSourceUserContactMethodModel Response \<Rightarrow> dataSourceUserContactMethodModel Response" where
  "dataSourceUserContactMethod_Read latency client getUserID getLabel getType resp =
     (let userID = snd getUserID;
          resp = resp\<lparr>Diagnostics := Diagnostics resp @ fst getUserID\<rparr>
      in if HasError (Diagnostics resp) then resp
         else
      (let searchLabel = snd getLabel;
           resp = resp\<lparr>Diagnostics := Diagnostics resp @ fst getLabel\<rparr>
       in if HasError (Diagnostics resp) then resp
          else
      (let searchType = snd getType;
           resp = resp\<lparr>Diagnostics := Diagnostics resp @ fst getType\<rparr>
       in if HasError (Diagnostics resp) then resp
          else
      (let r = dataSourceUserContactMethod_Read_retry latency client
                 (ValueString searchLabel) (ValueString searchType)
       in case rerr r of
            Some e \<Rightarrow>
              (if IsNotFoundError (Some e) then RemoveResource resp
               else resp\<lparr>Diagnostics :=
                      AddError (Sprintf ''Error reading PagerDuty user contact method with label: %s''
                                  [ArgTFString searchLabel])
                        (Error e) (Diagnostics resp)\<rparr>)
          | None \<Rightarrow>
              (case rst r of
                 None \<Rightarrow>
                   resp\<lparr>Diagnostics :=
                     AddError (Sprintf ''Unable to locate any user contact method with label: %s''
                                 [ArgTFString searchLabel])
                       [] (Diagnostics resp)\<rparr>
               | Some found \<Rightarrow>
                   (let model =
                          \<lparr>cmm_ID = StringValue (cm_ID found),
                           cmm_UserID = userID,
                           cmm_Address = StringValue (cm_Address found),
                           cmm_Blacklisted = cm_Blacklisted found,
                           cmm_CountryCode = cm_CountryCode found,
                           cmm_DeviceType = StringNull,
                           cmm_Enabled = cm_Enabled found,
                           cmm_Label = StringValue (cm_Label found),
                           cmm_SendShortEmail = cm_SendShortEmail found,
                           cmm_Type = StringValue (cm_Type found)\<rparr>;
                        model = (if cm_Type found = ''push_notification_contact_method''
                                 then model\<lparr>cmm_DeviceType := StringValue (cm_DeviceType found)\<rparr>
                                 else model)
                    in State_Set model resp))))))"

section \<open>The other retried functions\<close>


subsection \<open>Service data source (data\_source\_pagerduty\_service.go)\<close>

record Service =
  svc_ID :: string
  svc_Name :: string





subsection \<open>Slack connection (resource\_pagerduty\_slack\_connection.go)\<close>







subsection \<open>Service integration (resource\_pagerduty\_service\_integration.go)\<close>





subsection \<open>Incident custom field option\<close>






subsection \<open>Incident custom field data sources\<close>

text \<open>
  \<open>dataSourcePagerDutyIncidentCustomFieldRead\<close> of the older data source
  (data\_source\_pagerduty\_incident\_custom\_field.go). Its helper \<open>isErrCode\<close> is not
  under \<open>src/\<close> and is a parameter; \<open>flatten\<close> is \<open>flattenIncidentCustomField\<close>, which
  writes to the resource data \<open>d\<close> and may return an error. The 30 seconds the function
  sleeps before it returns a retryable error are part of the time the attempt takes
  (\<open>latency\<close>).
\<close>

record IncidentCustomField =
  icf_ID :: string
  icf_Name :: string







subsection \<open>Business service subscriber\<close>





record NotificationSubscriber =
  ns_SubscriberID :: string
  ns_SubscriberType :: string




subsection \<open>Service dependency: listing\<close>




subsection \<open>How a retry loop treats the errors of its API call\<close>


section \<open>The retry loops of the operations\<close>



section \<open>Client construction (config.go)\<close>

record AppOauthScopedToken =
  ClientID :: string
  ClientSecret :: string
  Subdomain :: string

record Config =
  APIURL :: string
  APIURLOverride :: string
  AppURL :: string
  Token :: string
  UserToken :: string
  SkipCredsValidation :: bool
  TerraformVersion :: string
  ServiceRegion :: string
  InsecureTls :: bool
  AppOauthScopedToken :: "AppOauthScopedToken option"

record HTTPClient =
  Timeout :: nat
  InsecureSkipVerify :: bool

text \<open>
  Modelled from the spec: \<open>pagerduty.NewClient\<close> and its options belong to the API client
  library (not under \<open>src/\<close>); the builder "constructs an authenticated API client from
  credentials, retry policy, and endpoint override". A client starts from the library's
  defaults and each option sets its own field, in the order given.
\<close>

datatype ClientOptions =
    WithHTTPClient "HTTPClient option"
  | WithAPIEndpoint string
  | WithTerraformProvider string
  | WithRetryPolicy nat nat
  | WithScopedOAuthAppTokenSource string string "string list" string

record Client =
  authToken :: string
  apiEndpoint :: string
  httpClient :: "HTTPClient option"
  terraformVersion :: "string option"
  retryPolicy :: "(nat \<times> nat) option"
  tokenSource :: "(string \<times> string \<times> string list \<times> string) option"

definition defaultClient :: "string \<Rightarrow> Client" where
  "defaultClient token =
     \<lparr>authToken = token, apiEndpoint = ''https://api.pagerduty.com'', httpClient = None,
      terraformVersion = None, retryPolicy = None, tokenSource = None\<rparr>"

text \<open>
  \<open>WithHTTPClient\<close> is the repository's own option: it leaves the client unchanged when
  the given HTTP client is nil.
\<close>

fun applyOption :: "ClientOptions \<Rightarrow> Client \<Rightarrow> Client" where
  "applyOption (WithHTTPClient h) c = (case h of None \<Rightarrow> c | Some x \<Rightarrow> c\<lparr>httpClient := Some x\<rparr>)"
| "applyOption (WithAPIEndpoint u) c = c\<lparr>apiEndpoint := u\<rparr>"
| "applyOption (WithTerraformProvider v) c = c\<lparr>terraformVersion := Some v\<rparr>"
| "applyOption (WithRetryPolicy m i) c = c\<lparr>retryPolicy := Some (m, i)\<rparr>"
| "applyOption (WithScopedOAuthAppTokenSource cid secret scopes file) c =
     c\<lparr>tokenSource := Some (cid, secret, scopes, file)\<rparr>"

definition NewClient :: "string \<Rightarrow> ClientOptions list \<Rightarrow> Client" where
  "NewClient token opts = foldl (\<lambda>c opt. applyOption opt c) (defaultClient token) opts"

definition invalidCreds :: string where
  "invalidCreds =
     [CHR 0x0A] @ ''No valid credentials found for PagerDuty provider.''
     @ [CHR 0x0A] @ ''Please see https://www.terraform.io/docs/providers/pagerduty/index.html''
     @ [CHR 0x0A] @ ''for more information on providing credentials for this provider.''
     @ [CHR 0x0A]"

text \<open>
  \<open>Config.getClient\<close>. \<open>listAbilities\<close> is the outcome of the credential check
  \<open>client.ListAbilitiesWithContext\<close>: \<open>None\<close> when it succeeds.
\<close>

definition getClient :: "Config \<Rightarrow> error option \<Rightarrow> string \<Rightarrow> ClientOptions list \<Rightarrow> error + Client" where
  "getClient c listAbilities token opts =
     (let httpClient = \<lparr>Timeout = 1 * Minute, InsecureSkipVerify = InsecureTls c\<rparr>;
          apiURL = APIURL c;
          apiURL = (if APIURLOverride c \<noteq> [] then APIURLOverride c else apiURL);
          maxRetries = 1;
          retryInterval = 60;
          clientOpts = [WithHTTPClient (Some httpClient),
                        WithAPIEndpoint apiURL,
                        WithTerraformProvider (TerraformVersion c),
                        WithRetryPolicy maxRetries retryInterval];
          clientOpts = clientOpts @ opts;
          client = NewClient token clientOpts
      in if \<not> SkipCredsValidation c
         then (case listAbilities of
                 Some e \<Rightarrow> Inl (ErrorsNew (Error e @ [CHR 0x0A] @ invalidCreds))
               | None \<Rightarrow> Inr client)
         else Inr client)"

definition availableOauthScopes :: "string list" where
  "availableOauthScopes =
     [''abilities.read'', ''addons.read'', ''addons.write'', ''analytics.read'',
      ''audit_records.read'', ''change_events.read'', ''change_events.write'',
      ''custom_fields.read'', ''custom_fields.write'', ''escalation_policies.read'',
      ''escalation_policies.write'', ''event_orchestrations.read'',
      ''event_orchestrations.write'', ''event_rules.read'', ''event_rules.write'',
      ''extension_schemas.read'', ''extensions.read'', ''extensions.write'',
      ''incident_workflows.read'', ''incident_workflows.write'',
      ''incident_workflows:instances.write'', ''incidents.read'', ''incidents.write'',
      ''licenses.read'', ''notifications.read'', ''oncalls.read'', ''priorities.read'',
      ''response_plays.read'', ''response_plays.write'', ''schedules.read'',
      ''schedules.write'', ''services.read'', ''services.write'', ''standards.read'',
      ''standards.write'', ''status_dashboards.read'', ''status_pages.read'',
      ''status_pages.write'', ''subscribers.read'', ''subscribers.write'', ''tags.read'',
      ''tags.write'', ''teams.read'', ''teams.write'', ''templates.read'',
      ''templates.write'', ''users.read'', ''users.write'', ''users:contact_methods.read'',
      ''users:contact_methods.write'', ''users:sessions.read'', ''users:sessions.write'',
      ''vendors.read'']"

text \<open>
  \<open>Config.Client\<close> and \<open>Config.SlackClient\<close>, the two callers of \<open>getClient\<close>.
  \<open>tokenFile\<close> is the path \<open>getTokenFilepath\<close> returns.
\<close>

definition Config_Client :: "Config \<Rightarrow> string \<Rightarrow> error option \<Rightarrow> error + Client" where
  "Config_Client c tokenFile listAbilities =
     (let clientOpts =
            (case AppOauthScopedToken c of
               Some t \<Rightarrow>
                 (let account = ''as_account-'' @ ServiceRegion c @ ''.'' @ Subdomain t;
                      accountAndScopes = [account] @ availableOauthScopes
                  in [WithScopedOAuthAppTokenSource (ClientID t) (ClientSecret t)
                        accountAndScopes tokenFile])
             | None \<Rightarrow> [])
      in if Token c = [] \<and> AppOauthScopedToken c = None then Inl (ErrorsNew invalidCreds)
         else getClient c listAbilities (Token c) clientOpts)"

definition Config_SlackClient :: "Config \<Rightarrow> error option \<Rightarrow> error + Client" where
  "Config_SlackClient c listAbilities =
     (if UserToken c = [] then Inl (ErrorsNew invalidCreds)
      else getClient c listAbilities (UserToken c) [])"

section \<open>Service dependency (resource\_pagerduty\_service\_dependency.go)\<close>

text \<open>
  What an operation does to the world outside its response: the operations on the global
  mutex \<open>resourceServiceDependencyMu\<close> and the calls of the API client. A call takes
  time, so it has a beginning and an end.
\<close>

datatype endpoint =
    AssociateServiceDependencies
  | DisassociateServiceDependencies
  | ListTechnicalServiceDependencies
  | ListBusinessServiceDependencies

datatype action =
    MuLock
  | MuUnlock
  | CallBegin endpoint
  | CallEnd endpoint

text \<open>
  \<open>resourceServiceDependency.Update\<close> only adds a warning to the response.
\<close>

definition resourceServiceDependency_Update :: "'req \<Rightarrow> 'm Response \<Rightarrow> action list \<times> 'm Response" where
  "resourceServiceDependency_Update req resp =
     ([], resp\<lparr>Diagnostics :=
            AddWarning (Plain ''Update for service dependency has no effect'') [] (Diagnostics resp)\<rparr>)"

text \<open>
  \<open>resourceServiceDependency.Create\<close>. \<open>planGet\<close> is what \<open>req.Plan.Get\<close> delivers,
  \<open>build\<close> and \<open>flatten\<close> are \<open>buildServiceDependencyStruct\<close> and
  \<open>flattenServiceDependency\<close> (\<open>'d\<close> is the pointer type \<open>*pagerduty.ServiceDependency\<close>),
  and \<open>associate\<close> is the outcome of the call of the association endpoint: an error, or
  the relationships of the returned list.
\<close>

definition resourceServiceDependency_Create ::
  "('m \<Rightarrow> 'd \<times> diagnostic list) \<Rightarrow> ('d list \<Rightarrow> 'm \<times> diagnostic list)
     \<Rightarrow> diagnostic list \<times> 'm \<Rightarrow> ('d list \<Rightarrow> error + 'd list)
     \<Rightarrow> 'm Response \<Rightarrow> action list \<times> 'm Response" where
  "resourceServiceDependency_Create build flatten planGet associate resp =
     (if HasError (fst planGet)
      then ([], resp\<lparr>Diagnostics := Diagnostics resp @ fst planGet\<rparr>)
      else
        (let model = snd planGet;
             b = build model;
             serviceDependency = fst b
         in if HasError (snd b)
            then ([], resp\<lparr>Diagnostics := Diagnostics resp @ snd b\<rparr>)
            else
              (let dependencies = [serviceDependency];
                   trace = [MuLock,
                            CallBegin AssociateServiceDependencies,
                            CallEnd AssociateServiceDependencies,
                            MuUnlock]
               in case associate dependencies of
                    Inl e \<Rightarrow>
                      (trace,
                       resp\<lparr>Diagnostics :=
                         AddError (Plain ''Error calling AssociateServiceDependenciesWithContext'')
                           (Error e) (Diagnostics resp)\<rparr>)
                  | Inr relationships \<Rightarrow>
                      (let f = flatten relationships
                       in if HasError (snd f)
                          then (trace, resp\<lparr>Diagnostics := Diagnostics resp @ snd f\<rparr>)
                          else (trace, State_Set (fst f) resp)))))"

subsection \<open>Concurrent operations\<close>

text \<open>
  The host runtime may run several operations at once. A system state holds whether the
  mutex is locked and, for every running operation, the actions it has still to do.
  One step lets one operation do its next action; \<open>MuLock\<close> can only be done while the
  mutex is unlocked (\<open>sync.Mutex.Lock\<close> blocks otherwise).
\<close>

record system =
  locked :: bool
  threads :: "action list list"

fun enabled :: "action \<Rightarrow> bool \<Rightarrow> bool" where
  "enabled MuLock l = (\<not> l)"
| "enabled _ l = True"

fun effect :: "action \<Rightarrow> bool \<Rightarrow> bool" where
  "effect MuLock l = True"
| "effect MuUnlock l = False"
| "effect _ l = l"

inductive step :: "system \<Rightarrow> system \<Rightarrow> bool" where
  step_thread:
    "i < length (threads s) \<Longrightarrow> threads s ! i = a # rest \<Longrightarrow> enabled a (locked s) \<Longrightarrow>
     step s \<lparr>locked = effect a (locked s), threads = (threads s)[i := rest]\<rparr>"

inductive reachable :: "system \<Rightarrow> system \<Rightarrow> bool" for init :: system where
  reachable_init: "reachable init init"
| reachable_step: "reachable init s \<Longrightarrow> step s s' \<Longrightarrow> reachable init s'"

text \<open>An operation is inside a call of an endpoint from the call's beginning to its end.\<close>

fun in_call :: "endpoint \<Rightarrow> action list \<Rightarrow> bool" where
  "in_call ep (CallEnd ep' # rest) = (ep' = ep)"
| "in_call ep _ = False"

text \<open>An operation holds the mutex when it has an unlock still to do, and no lock before it.\<close>

fun holds :: "action list \<Rightarrow> bool" where
  "holds [] = False"
| "holds (MuLock # rest) = False"
| "holds (MuUnlock # rest) = True"
| "holds (a # rest) = holds rest"

text \<open>
  The action lists of \<open>resourceServiceDependency.Create\<close>, for any plan and any answer
  of the API.
\<close>

definition Create_traces :: "action list set" where
  "Create_traces =
     {[], [MuLock, CallBegin AssociateServiceDependencies,
           CallEnd AssociateServiceDependencies, MuUnlock]}"

definition initial :: "action list list \<Rightarrow> system" where
  "initial ts = \<lparr>locked = False, threads = ts\<rparr>"

text \<open>
  The invariant of the mutex: every operation is somewhere in an action list of
  \<open>Create\<close>, at most one operation holds the mutex, and the mutex is locked exactly when
  one does.
\<close>

definition mutex_inv :: "system \<Rightarrow> bool" where
  "mutex_inv s =
     ((\<forall>t\<in>set (threads s). \<exists>tr\<in>Create_traces. suffix t tr)
      \<and> (\<forall>i j. i < length (threads s) \<and> j < length (threads s)
                \<and> holds (threads s ! i) \<and> holds (threads s ! j) \<longrightarrow> i = j)
      \<and> (locked s = (\<exists>i<length (threads s). holds (threads s ! i))))"

definition Create_trace :: "action list" where
  "Create_trace =
     [MuLock, CallBegin AssociateServiceDependencies,
      CallEnd AssociateServiceDependencies, MuUnlock]"

definition one_in_call :: system where
  "one_in_call =
     \<lparr>locked = True,
      threads = [[CallEnd AssociateServiceDependencies, MuUnlock], Create_trace]\<rparr>"

section \<open>Slack connection config (resource\_pagerduty\_slack\_connection.go)\<close>

text \<open>
  \<open>types.List\<close> of the plugin framework: null, unknown or a list of elements. A Go slice
  is a list option: \<open>None\<close> is the nil slice, \<open>Some []\<close> the empty, non-nil slice. A Go
  panic is a value of type \<open>panic\<close>.
\<close>

datatype 'a tfList = ListNull | ListUnknown | ListValue "'a list"

datatype panic = IndexOutOfRange | NilPointerDereference

record slackConfigObject =
  sco_Events :: "tfString tfList"
  sco_Priorities :: "tfString tfList"
  sco_Urgency :: tfString

record SlackConnectionConfig =
  scc_Events :: "string list option"
  scc_Priorities :: "string list option"
  scc_Urgency :: "string option"

definition StarWildcardConfig :: string where
  "StarWildcardConfig = ''*''"

text \<open>
  Modelled from the spec: \<open>util.IsNilFunc\<close> (package util, not under \<open>src/\<close>), the
  "nil-interface check" of the shared utilities, at a slice: true for the nil slice.
\<close>

fun IsNilFunc_slice :: "'a list option \<Rightarrow> bool" where
  "IsNilFunc_slice None = True"
| "IsNilFunc_slice (Some xs) = False"

text \<open>
  \<open>buildPagerdutySlackConnectionConfig\<close>. The framework's \<open>ElementsAs\<close> is a parameter in
  both of its uses. In the first call the source passes the slice \<open>target\<close> itself, not
  a pointer to it: \<open>ElementsAs_value\<close> gives the diagnostics of that call, and whatever
  they are, the callee cannot assign the caller's variable, so \<open>target\<close> is still the nil
  slice afterwards and \<open>target[0]\<close> is out of range. In the later calls the source passes
  \<open>&events\<close> and \<open>&priorities\<close>: \<open>ElementsAs_pointer\<close> gives the diagnostics and the new
  value of the slice.
\<close>

definition buildPagerdutySlackConnectionConfig ::
  "(slackConfigObject tfList \<Rightarrow> diagnostic list)
     \<Rightarrow> (tfString tfList \<Rightarrow> string list option \<Rightarrow> diagnostic list \<times> string list option)
     \<Rightarrow> slackConfigObject tfList \<Rightarrow> diagnostic list
     \<Rightarrow> panic + (SlackConnectionConfig option \<times> diagnostic list)" where
  "buildPagerdutySlackConnectionConfig ElementsAs_value ElementsAs_pointer list diags =
     (let target = ([] :: slackConfigObject list)
      in if HasError (ElementsAs_value list) then Inr (None, diags)
         else
           (case target of
              [] \<Rightarrow> Inl IndexOutOfRange
            | obj # _ \<Rightarrow>
                (let events = Some [];
                     d = ElementsAs_pointer (sco_Events obj) events;
                     events = snd d;
                     diags = diags @ fst d
                 in if HasError (fst d) then Inr (None, diags)
                    else
                      (let priorities = Some [];
                           d = ElementsAs_pointer (sco_Priorities obj) priorities;
                           priorities = snd d;
                           diags = diags @ fst d
                       in if HasError (fst d) then Inr (None, diags)
                          else
                            (let priorities =
                                   (if priorities = Some [StarWildcardConfig] then None
                                    else priorities);
                                 urgency =
                                   (if \<not> IsNull (sco_Urgency obj) \<and> \<not> IsUnknown (sco_Urgency obj)
                                    then Some (ValueString (sco_Urgency obj))
                                    else None)
                             in Inr (Some \<lparr>scc_Events = events, scc_Priorities = priorities,
                                             scc_Urgency = urgency\<rparr>, diags))))))"

definition flattenStringList :: "string list option \<Rightarrow> tfString tfList" where
  "flattenStringList values = ListValue (map StringValue (case values of None \<Rightarrow> [] | Some vs \<Rightarrow> vs))"

text \<open>\<open>flattenSlackConnectionConfig\<close>; \<open>cfg\<close> is a pointer, dereferenced at once.\<close>

definition flattenSlackConnectionConfig ::
  "SlackConnectionConfig option \<Rightarrow> panic + slackConfigObject tfList" where
  "flattenSlackConnectionConfig cfg =
     (case cfg of
        None \<Rightarrow> Inl NilPointerDereference
      | Some c \<Rightarrow>
          (let urgency = (case scc_Urgency c of Some u \<Rightarrow> StringValue u | None \<Rightarrow> StringNull);
               priorities = scc_Priorities c;
               priorities = (if IsNilFunc_slice priorities then Some [StarWildcardConfig]
                             else priorities);
               configObj = \<lparr>sco_Events = flattenStringList (scc_Events c),
                            sco_Priorities = flattenStringList priorities,
                            sco_Urgency = urgency\<rparr>
           in Inr (ListValue [configObj])))"

section \<open>Example inputs\<close>

definition no_latency :: "nat \<Rightarrow> nat" where
  "no_latency n = 0"

definition err500 :: error where
  "err500 = APIErr \<lparr>StatusCode = 500, message = ''Internal Server Error''\<rparr>"

definition err400 :: error where
  "err400 = APIErr \<lparr>StatusCode = 400, message = ''Bad Request''\<rparr>"

definition err404 :: error where
  "err404 = APIErr \<lparr>StatusCode = 404, message = ''Not Found''\<rparr>"


definition always404 :: "'a api" where
  "always404 n = Inl err404"


definition twice500_then400 :: "'a api" where
  "twice500_then400 n = (if n < 2 then Inl err500 else Inl err400)"


definition service_without_team :: BusinessService where
  "service_without_team =
     \<lparr>bs_ID = ''P1'', bs_Name = ''billing'', bs_Type = ''business_service'',
      bs_Summary = ''billing'', bs_Self = ''https://api.pagerduty.com/business_services/P1'',
      bs_PointOfContact = [], bs_HTMLUrl = ''https://acme.pagerduty.com/P1'',
      bs_Description = ''Managed by Terraform'', bs_Team = None\<rparr>"

definition service_with_team :: BusinessService where
  "service_with_team =
     service_without_team
       \<lparr>bs_PointOfContact := ''ops'',
        bs_Team := Some \<lparr>team_ID = ''T1'', team_Type = [], team_Self = []\<rparr>\<rparr>"

definition cm_sms :: ContactMethod where
  "cm_sms =
     \<lparr>cm_ID = ''C1'', cm_Type = ''sms_contact_method'', cm_Label = ''Work'',
      cm_Address = ''5550100'', cm_Blacklisted = False, cm_CountryCode = 1,
      cm_Enabled = True, cm_SendShortEmail = False, cm_DeviceType = []\<rparr>"

definition cm_home :: ContactMethod where
  "cm_home =
     \<lparr>cm_ID = ''C2'', cm_Type = ''email_contact_method'', cm_Label = ''Home'',
      cm_Address = ''me@example.com'', cm_Blacklisted = False, cm_CountryCode = 0,
      cm_Enabled = True, cm_SendShortEmail = False, cm_DeviceType = []\<rparr>"

definition listing_sms_then_home :: "(ContactMethod list) api" where
  "listing_sms_then_home n = Inr [cm_sms, cm_home]"

definition example_config :: Config where
  "example_config =
     \<lparr>APIURL = ''https://api.pagerduty.com'', APIURLOverride = ''https://api.eu.pagerduty.com'',
      AppURL = ''https://app.pagerduty.com'', Token = ''secret'', UserToken = ''user-secret'',
      SkipCredsValidation = True, TerraformVersion = ''1.5.0'', ServiceRegion = ''eu'',
      InsecureTls = False, AppOauthScopedToken = None\<rparr>"

definition star_config :: "slackConfigObject tfList" where
  "star_config =
     ListValue [\<lparr>sco_Events = ListValue [StringValue ''incident.triggered''],
                 sco_Priorities = ListValue [StringValue ''*''],
                 sco_Urgency = StringNull\<rparr>]"

section \<open>Error classification: proofs\<close>

lemma match_here_literal:
  "match_here (map Lit w @ [EndText]) s = (s = w)"
  by (induction w arbitrary: s) (case_tac s; auto)+

lemma match_here_DotStar_suffix:
  "match_here (DotStar # map Lit w @ [EndText]) s \<Longrightarrow> suffix w s"
proof (induction s)
  case Nil
  then show ?case by (simp add: match_here_literal)
next
  case (Cons x xs)
  then show ?case
    by (auto simp: match_here_literal suffix_Cons)
qed

lemma MatchString_suffix:
  "MatchString (DotStar # map Lit w @ [EndText]) s \<Longrightarrow> suffix w s"
proof (induction s)
  case Nil
  then have "match_here (DotStar # map Lit w @ [EndText]) []" by simp
  then show ?case by (rule match_here_DotStar_suffix)
next
  case (Cons x xs)
  from Cons.prems
  have "match_here (DotStar # map Lit w @ [EndText]) (x # xs)
          \<or> MatchString (DotStar # map Lit w @ [EndText]) xs"
    by simp
  then show ?case
  proof
    assume "match_here (DotStar # map Lit w @ [EndText]) (x # xs)"
    then show ?thesis by (rule match_here_DotStar_suffix)
  next
    assume "MatchString (DotStar # map Lit w @ [EndText]) xs"
    then have "suffix w xs" by (rule Cons.IH)
    then show ?thesis by (simp add: suffix_Cons)
  qed
qed

lemma match_here_DotStar_literal:
  "match_here (DotStar # map Lit w @ [EndText]) w"
  by (cases w) (simp_all add: match_here_literal)

lemma MatchString_append:
  "MatchString (DotStar # map Lit w @ [EndText]) (ys @ w)"
proof (induction ys)
  case Nil
  show ?case by (cases w) (simp_all add: match_here_literal)
next
  case (Cons y ys)
  then show ?case by simp
qed

lemma MatchString_notFoundErrorRegexp:
  "MatchString notFoundErrorRegexp s = suffix '': 404 Not Found'' s"
proof
  assume "MatchString notFoundErrorRegexp s"
  then show "suffix '': 404 Not Found'' s"
    unfolding notFoundErrorRegexp_def by (rule MatchString_suffix)
next
  assume "suffix '': 404 Not Found'' s"
  then obtain ys where "s = ys @ '': 404 Not Found''"
    by (auto simp: suffix_def)
  then show "MatchString notFoundErrorRegexp s"
    unfolding notFoundErrorRegexp_def using MatchString_append by blast
qed

text \<open>
  Claim C8. \<open>IsNotFoundError err\<close> is true exactly when \<open>err\<close> is not nil and either
  unwraps to a \<open>pagerduty.APIError\<close> whose status code is 404, or has an error message
  matching the regular expression \<open>.*: 404 Not Found$\<close>; \<open>IsNotFoundError nil\<close> is false.
  The messages that match are those that end in \<open>: 404 Not Found\<close>.
\<close>

theorem IsNotFoundError_iff:
  "(IsNotFoundError err =
      (\<exists>e. err = Some e \<and>
         ((\<exists>a. errors_As e = Some a \<and> StatusCode a = 404)
          \<or> MatchString notFoundErrorRegexp (Error e))))
   \<and> \<not> IsNotFoundError None
   \<and> MatchString notFoundErrorRegexp s = suffix '': 404 Not Found'' s"
proof (intro conjI)
  show "IsNotFoundError err =
      (\<exists>e. err = Some e \<and>
         ((\<exists>a. errors_As e = Some a \<and> StatusCode a = 404)
          \<or> MatchString notFoundErrorRegexp (Error e)))"
    by (auto simp: IsNotFoundError_def StatusNotFound_def split: option.splits)
  show "\<not> IsNotFoundError None"
    by (simp add: IsNotFoundError_def)
  show "MatchString notFoundErrorRegexp s = suffix '': 404 Not Found'' s"
    by (rule MatchString_notFoundErrorRegexp)
qed

theorem IsNotFoundError_iff_witness:
  "IsNotFoundError (Some (ErrorsNew ''GET /x: 404 Not Found''))
   \<and> IsNotFoundError (Some (Wrapped ''request failed'' (APIErr \<lparr>StatusCode = 404, message = ''gone''\<rparr>)))
   \<and> \<not> IsNotFoundError (Some (APIErr \<lparr>StatusCode = 500, message = ''404 Not Found: no''\<rparr>))
   \<and> \<not> IsNotFoundError None"
  using IsNotFoundError_iff [THEN conjunct1, of "Some (ErrorsNew ''GET /x: 404 Not Found'')"]
        IsNotFoundError_iff [THEN conjunct1,
          of "Some (Wrapped ''request failed'' (APIErr \<lparr>StatusCode = 404, message = ''gone''\<rparr>))"]
        IsNotFoundError_iff [THEN conjunct1,
          of "Some (APIErr \<lparr>StatusCode = 500, message = ''404 Not Found: no''\<rparr>)"]
        IsNotFoundError_iff [THEN conjunct2, THEN conjunct1]
  by (simp add: notFoundErrorRegexp_def)

section \<open>The retry helper: proofs\<close>

lemma RetryLoop_timeout:
  "timeout \<le> elapsed \<Longrightarrow>
   RetryLoop timeout latency f elapsed n lastErr s =
     \<lparr>rerr = Some (case lastErr of None \<Rightarrow> TimeoutError | Some e \<Rightarrow> e), rst = s, calls = n,
      waited = elapsed\<rparr>"
  by (subst RetryLoop.simps) simp

lemma RetryLoop_success:
  "elapsed < timeout \<Longrightarrow> f n s = (None, s') \<Longrightarrow>
   RetryLoop timeout latency f elapsed n lastErr s =
     \<lparr>rerr = None, rst = s', calls = Suc n, waited = elapsed\<rparr>"
  by (subst RetryLoop.simps) simp

lemma RetryLoop_stop:
  "elapsed < timeout \<Longrightarrow> f n s = (Some (NonRetryableError e), s') \<Longrightarrow>
   RetryLoop timeout latency f elapsed n lastErr s =
     \<lparr>rerr = Some e, rst = s', calls = Suc n, waited = elapsed\<rparr>"
  by (subst RetryLoop.simps) simp

lemma RetryLoop_retry:
  "elapsed < timeout \<Longrightarrow> f n s = (Some (RetryableError e), s') \<Longrightarrow>
   RetryLoop timeout latency f elapsed n lastErr s =
     RetryLoop timeout latency f (elapsed + pollInterval + latency n) (Suc n) (Some e) s'"
  by (subst RetryLoop.simps) simp





lemma elapsedBefore_mono: "elapsedBefore latency n \<le> elapsedBefore latency (n + k)"
  by (induction k) simp_all

lemma RetryLoop_skip:
  assumes "\<forall>j<k. \<exists>e. f (n + j) s = (Some (RetryableError e), s)"
    and "elapsedBefore latency (n + k) < T"
  shows "\<exists>lastE'. RetryLoop T latency f (elapsedBefore latency n) n lastE s =
           RetryLoop T latency f (elapsedBefore latency (n + k)) (n + k) lastE' s"
  using assms
proof (induction k arbitrary: n lastE)
  case 0
  then show ?case by auto
next
  case (Suc k)
  from Suc.prems(1) obtain e where e: "f n s = (Some (RetryableError e), s)"
    by (metis add.right_neutral zero_less_Suc)
  have "elapsedBefore latency n \<le> elapsedBefore latency (n + Suc k)"
    by (rule elapsedBefore_mono)
  with Suc.prems(2) have lt: "elapsedBefore latency n < T" by simp
  have step: "RetryLoop T latency f (elapsedBefore latency n) n lastE s =
      RetryLoop T latency f (elapsedBefore latency (Suc n)) (Suc n) (Some e) s"
    using RetryLoop_retry [where f = f and n = n and s = s, OF lt e] by simp
  have "\<forall>j<k. \<exists>e. f (Suc n + j) s = (Some (RetryableError e), s)"
    using Suc.prems(1) by (metis Suc_less_eq add_Suc_shift)
  moreover have "elapsedBefore latency (Suc n + k) < T"
    using Suc.prems(2) by simp
  ultimately obtain lastE' where
    "RetryLoop T latency f (elapsedBefore latency (Suc n)) (Suc n) (Some e) s =
     RetryLoop T latency f (elapsedBefore latency (Suc n + k)) (Suc n + k) lastE' s"
    using Suc.IH [of "Suc n" "Some e"] by blast
  with step show ?case by (metis add_Suc_shift)
qed



lemma RetryContext_stop_at:
  assumes cls: "\<And>e s. attempt (Inl e) s =
                  (if stops e then (Some (NonRetryableError e), s)
                   else (Some (RetryableError e), s))"
    and pre: "\<forall>j<k. \<exists>e'. client j = Inl e' \<and> \<not> stops e'"
    and at: "client k = Inl e" "stops e"
    and budget: "elapsedBefore latency k < T"
  shows "RetryContext T latency (\<lambda>n. attempt (client n)) s =
           \<lparr>rerr = Some e, rst = s, calls = Suc k, waited = elapsedBefore latency k\<rparr>"
proof -
  let ?f = "\<lambda>n. attempt (client n)"
  have "\<forall>j<k. \<exists>e'. ?f (0 + j) s = (Some (RetryableError e'), s)"
    using pre cls by fastforce
  moreover have "elapsedBefore latency (0 + k) < T" using budget by simp
  ultimately obtain lastE' where
    "RetryLoop T latency ?f (elapsedBefore latency 0) 0 None s =
     RetryLoop T latency ?f (elapsedBefore latency (0 + k)) (0 + k) lastE' s"
    using RetryLoop_skip [where f = ?f and n = 0 and k = k and s = s and T = T
                            and latency = latency and lastE = None]
    by blast
  then have "RetryContext T latency ?f s =
      RetryLoop T latency ?f (elapsedBefore latency k) k lastE' s"
    by (simp add: RetryContext_def)
  moreover have "?f k s = (Some (NonRetryableError e), s)"
    using at cls by simp
  ultimately show ?thesis
    using RetryLoop_stop [where f = ?f and n = k and s = s and s' = s, OF budget]
    by simp
qed


lemma requestGetIncidentCustomField_attempt_Inl:
  "requestGetIncidentCustomField_attempt retryNotFound (Inl e) s =
     (if IsBadRequestError (Some e) \<or> (\<not> retryNotFound \<and> IsNotFoundError (Some e))
      then (Some (NonRetryableError e), s)
      else (Some (RetryableError e), s))"
  by (simp add: requestGetIncidentCustomField_attempt_def)

lemma IncidentCustomField_Create_attempt_Inl:
  "IncidentCustomField_Create_attempt (Inl e) s =
     (if IsBadRequestError (Some e) then (Some (NonRetryableError e), s)
      else (Some (RetryableError e), s))"
  by (simp add: IncidentCustomField_Create_attempt_def)

lemma ExtensionSchema_Read_attempt_Inl:
  "ExtensionSchema_Read_attempt EqualFold searchName (Inl e) s =
     (if IsBadRequestError (Some e) then (Some (NonRetryableError e), s)
      else (Some (RetryableError e), s))"
  by (simp add: ExtensionSchema_Read_attempt_def)

lemma UserContactMethod_Read_attempt_Inl:
  "UserContactMethod_Read_attempt searchLabel searchType (Inl e) s =
     (if IsBadRequestError (Some e) \<or> IsNotFoundError (Some e)
      then (Some (NonRetryableError e), s)
      else (Some (RetryableError e), s))"
  by (simp add: UserContactMethod_Read_attempt_def)



section \<open>Retry classification\<close>

lemma err_classes:
  "\<not> IsBadRequestError (Some err500)" "\<not> IsNotFoundError (Some err500)"
  "IsBadRequestError (Some err400)" "\<not> IsNotFoundError (Some err400)"
  "\<not> IsBadRequestError (Some err404)" "IsNotFoundError (Some err404)"
  by (simp_all add: IsBadRequestError_def IsStatusCodeError_def StatusBadRequest_def
        IsNotFoundError_def StatusNotFound_def err500_def err400_def err404_def
        notFoundErrorRegexp_def)

























section \<open>Bounded retrying\<close>







section \<open>Reading an incident custom field\<close>

lemma RetryLoop_error_origin:
  "rerr (RetryLoop T latency f el n lastE s) = Some e \<Longrightarrow>
   lastE = Some e \<or> (lastE = None \<and> T \<le> el)
   \<or> (\<exists>k s1 s2. f k s1 = (Some (RetryableError e), s2) \<or> f k s1 = (Some (NonRetryableError e), s2))"
proof (induction T latency f el n lastE s rule: RetryLoop.induct)
  case (1 T latency f el n lastE s)
  show ?case
  proof (cases "T \<le> el")
    case True
    with "1.prems" show ?thesis
      by (cases lastE) (simp_all add: RetryLoop_timeout)
  next
    case False
    then have lt: "el < T" by simp
    obtain x s' where fx: "f n s = (x, s')" by (cases "f n s")
    show ?thesis
    proof (cases x)
      case None
      with lt fx "1.prems" show ?thesis
        by (simp add: RetryLoop_success [where f = f and n = n and s = s])
    next
      case (Some re)
      show ?thesis
      proof (cases re)
        case (RetryableError e0)
        with Some fx have e0: "f n s = (Some (RetryableError e0), s')" by simp
        from "1.prems"
        have "rerr (RetryLoop T latency f (el + pollInterval + latency n) (Suc n) (Some e0) s') = Some e"
          unfolding RetryLoop_retry [where f = f and n = n and s = s, OF lt e0] .
        from "1.IH" [OF False fx [symmetric] _ _ this] Some RetryableError
        have "Some e0 = Some e
          \<or> (\<exists>k s1 s2. f k s1 = (Some (RetryableError e), s2) \<or> f k s1 = (Some (NonRetryableError e), s2))"
          by simp
        with e0 show ?thesis by blast
      next
        case (NonRetryableError e0)
        with Some fx have e0: "f n s = (Some (NonRetryableError e0), s')" by simp
        with lt "1.prems" have "e0 = e"
          by (simp add: RetryLoop_stop [where f = f and n = n and s = s])
        with e0 show ?thesis by blast
      qed
    qed
  qed
qed

lemma RetryLoop_error_state:
  "\<forall>n s x s'. f n s = (Some x, s') \<longrightarrow> s' = s \<Longrightarrow>
   rerr (RetryLoop T latency f el n lastE s) \<noteq> None \<Longrightarrow>
   rst (RetryLoop T latency f el n lastE s) = s"
proof (induction T latency f el n lastE s rule: RetryLoop.induct)
  case (1 T latency f el n lastE s)
  note keep = "1.prems"(1)
  show ?case
  proof (cases "T \<le> el")
    case True
    then show ?thesis by (simp add: RetryLoop_timeout)
  next
    case False
    then have lt: "el < T" by simp
    obtain x s' where fx: "f n s = (x, s')" by (cases "f n s")
    show ?thesis
    proof (cases x)
      case None
      with lt fx "1.prems" show ?thesis
        by (simp add: RetryLoop_success [where f = f and n = n and s = s])
    next
      case (Some re)
      from fx Some have "f n s = (Some re, s')" by simp
      with keep have s': "s' = s" by blast
      show ?thesis
      proof (cases re)
        case (RetryableError e0)
        with Some fx have e0: "f n s = (Some (RetryableError e0), s')" by simp
        from "1.prems"(2)
        have "rerr (RetryLoop T latency f (el + pollInterval + latency n) (Suc n) (Some e0) s') \<noteq> None"
          unfolding RetryLoop_retry [where f = f and n = n and s = s, OF lt e0] .
        from "1.IH" [OF False fx [symmetric] _ _ keep this] Some RetryableError
        show ?thesis
          unfolding RetryLoop_retry [where f = f and n = n and s = s, OF lt e0]
          using s' by simp
      next
        case (NonRetryableError e0)
        with Some fx lt s' show ?thesis
          by (simp add: RetryLoop_stop [where f = f and n = n and s = s])
      qed
    qed
  qed
qed

lemma requestGetIncidentCustomField_error:
  assumes "rerr (requestGetIncidentCustomField latency client retryNotFound diags) = Some e"
  shows "(\<exists>k. client k = Inl e)
       \<and> rst (requestGetIncidentCustomField latency client retryNotFound diags)
           = (zero_resourceIncidentCustomFieldModel, diags)"
proof -
  let ?f = "\<lambda>n. requestGetIncidentCustomField_attempt retryNotFound (client n)"
  have keep: "s' = s" if "?f n s = (Some x, s')" for n s x s'
    using that
    by (cases "client n") (auto simp: requestGetIncidentCustomField_attempt_def split: if_splits)
  have origin: "\<exists>k. client k = Inl e"
    if "?f k s1 = (Some (RetryableError e), s2) \<or> ?f k s1 = (Some (NonRetryableError e), s2)"
    for k s1 s2
    using that
    by (cases "client k") (auto simp: requestGetIncidentCustomField_attempt_def split: if_splits)
  from assms have r: "rerr (RetryLoop (2 * Minute) latency ?f 0 0 None (zero_resourceIncidentCustomFieldModel, diags)) = Some e"
    by (simp add: requestGetIncidentCustomField_def RetryContext_def)
  from RetryLoop_error_origin [OF r]
  have "\<exists>k s1 s2. ?f k s1 = (Some (RetryableError e), s2) \<or> ?f k s1 = (Some (NonRetryableError e), s2)"
    by (simp add: Minute_def Second_def del: split_paired_Ex)
  then obtain k s1 s2 where
    "?f k s1 = (Some (RetryableError e), s2) \<or> ?f k s1 = (Some (NonRetryableError e), s2)"
    by blast
  then have "\<exists>k. client k = Inl e" by (rule origin)
  moreover from r have "rst (RetryLoop (2 * Minute) latency ?f 0 0 None (zero_resourceIncidentCustomFieldModel, diags))
      = (zero_resourceIncidentCustomFieldModel, diags)"
    using keep by (intro RetryLoop_error_state [where f = ?f]) (blast, simp)
  ultimately show ?thesis
    by (simp add: requestGetIncidentCustomField_def RetryContext_def)
qed

text \<open>
  Claim C2. In \<open>resourceIncidentCustomField.Read\<close>, the id having been read from the
  state without an error diagnostic: when the GET request fails with a not-found error
  (at the first attempt, or at a later one that starts within the timeout after retried
  failures), the resource is removed from the state and no diagnostic is added; when
  the request ends with any other error, an error diagnostic carrying that error is
  added and the state is left as it was.
\<close>

theorem incident_custom_field_Read_not_found:
  assumes "\<not> HasError (Diagnostics resp @ fst getAttribute)"
  shows
    "(\<forall>k e.
        (\<forall>j<k. \<exists>e'. client j = Inl e'
             \<and> \<not> IsBadRequestError (Some e') \<and> \<not> IsNotFoundError (Some e'))
        \<and> elapsedBefore latency k < 2 * Minute
        \<and> client k = Inl e \<and> IsNotFoundError (Some e)
        \<longrightarrow> resourceIncidentCustomField_Read latency client getAttribute resp
              = \<lparr>Diagnostics = Diagnostics resp @ fst getAttribute, State = None\<rparr>)
     \<and> (\<forall>e.
        rerr (requestGetIncidentCustomField latency client False
                (Diagnostics resp @ fst getAttribute)) = Some e
        \<and> \<not> IsNotFoundError (Some e)
        \<longrightarrow> (\<exists>k. client k = Inl e)
          \<and> resourceIncidentCustomField_Read latency client getAttribute resp
              = \<lparr>Diagnostics = Diagnostics resp @ fst getAttribute
                     @ [ErrorDiagnostic
                          (Sprintf ''Error reading PagerDuty incident custom field %s''
                             [ArgTFString (snd getAttribute)])
                          (Error e)],
                 State = State resp\<rparr>)"
proof (intro conjI allI impI)
  fix k e
  assume a: "(\<forall>j<k. \<exists>e'. client j = Inl e'
             \<and> \<not> IsBadRequestError (Some e') \<and> \<not> IsNotFoundError (Some e'))
        \<and> elapsedBefore latency k < 2 * Minute
        \<and> client k = Inl e \<and> IsNotFoundError (Some e)"
  let ?d = "Diagnostics resp @ fst getAttribute"
  have r: "requestGetIncidentCustomField latency client False ?d =
        \<lparr>rerr = Some e, rst = (zero_resourceIncidentCustomFieldModel, ?d), calls = Suc k,
         waited = elapsedBefore latency k\<rparr>"
    unfolding requestGetIncidentCustomField_def
    by (rule RetryContext_stop_at
          [where stops = "\<lambda>e. IsBadRequestError (Some e) \<or> (\<not> False \<and> IsNotFoundError (Some e))"])
       (use a in \<open>simp_all add: requestGetIncidentCustomField_attempt_Inl\<close>)
  show "resourceIncidentCustomField_Read latency client getAttribute resp
              = \<lparr>Diagnostics = Diagnostics resp @ fst getAttribute, State = None\<rparr>"
    using assms a
    by (simp add: resourceIncidentCustomField_Read_def Let_def r RemoveResource_def)
next
  fix e
  let ?d = "Diagnostics resp @ fst getAttribute"
  assume a: "rerr (requestGetIncidentCustomField latency client False ?d) = Some e
        \<and> \<not> IsNotFoundError (Some e)"
  note err = requestGetIncidentCustomField_error [of latency client False ?d e]
  from a err show "\<exists>k. client k = Inl e" by blast
  from a err assms
  show "resourceIncidentCustomField_Read latency client getAttribute resp
              = \<lparr>Diagnostics = Diagnostics resp @ fst getAttribute
                     @ [ErrorDiagnostic
                          (Sprintf ''Error reading PagerDuty incident custom field %s''
                             [ArgTFString (snd getAttribute)])
                          (Error e)],
                 State = State resp\<rparr>"
    by (simp add: resourceIncidentCustomField_Read_def Let_def AddError_def)
qed

theorem incident_custom_field_Read_not_found_witness:
  "resourceIncidentCustomField_Read no_latency always404 ([], StringValue ''P1'')
     \<lparr>Diagnostics = [], State = Some zero_resourceIncidentCustomFieldModel\<rparr>
     = \<lparr>Diagnostics = [], State = None\<rparr>
   \<and> resourceIncidentCustomField_Read no_latency twice500_then400 ([], StringValue ''P1'')
       \<lparr>Diagnostics = [], State = Some zero_resourceIncidentCustomFieldModel\<rparr>
     = \<lparr>Diagnostics =
          [ErrorDiagnostic
             (Sprintf ''Error reading PagerDuty incident custom field %s''
                [ArgTFString (StringValue ''P1'')])
             ''Bad Request''],
        State = Some zero_resourceIncidentCustomFieldModel\<rparr>"
proof -
  let ?resp = "\<lparr>Diagnostics = [], State = Some zero_resourceIncidentCustomFieldModel\<rparr>"
  let ?get = "([] :: diagnostic list, StringValue ''P1'')"
  have ok: "\<not> HasError (Diagnostics ?resp @ fst ?get)"
    by (simp add: HasError_def)
  have gone: "resourceIncidentCustomField_Read no_latency always404 ?get ?resp
      = \<lparr>Diagnostics = [], State = None\<rparr>"
    using incident_custom_field_Read_not_found
            [where resp = ?resp and getAttribute = ?get and client = always404
               and latency = no_latency, OF ok,
             THEN conjunct1, rule_format, where k = 0 and e = err404]
    by (simp add: always404_def err_classes Minute_def Second_def)
  have stop: "requestGetIncidentCustomField no_latency twice500_then400 False [] =
        \<lparr>rerr = Some err400, rst = (zero_resourceIncidentCustomFieldModel, []), calls = Suc 2,
         waited = elapsedBefore no_latency 2\<rparr>"
    unfolding requestGetIncidentCustomField_def
    by (rule RetryContext_stop_at
          [where stops = "\<lambda>e. IsBadRequestError (Some e) \<or> (\<not> False \<and> IsNotFoundError (Some e))"])
       (simp_all add: requestGetIncidentCustomField_attempt_Inl twice500_then400_def err_classes
          numeral_2_eq_2 pollInterval_def no_latency_def Minute_def Second_def)
  have kept: "resourceIncidentCustomField_Read no_latency twice500_then400 ?get ?resp
      = \<lparr>Diagnostics =
          [ErrorDiagnostic
             (Sprintf ''Error reading PagerDuty incident custom field %s''
                [ArgTFString (StringValue ''P1'')])
             ''Bad Request''],
        State = Some zero_resourceIncidentCustomFieldModel\<rparr>"
    using incident_custom_field_Read_not_found
            [where resp = ?resp and getAttribute = ?get and client = twice500_then400
               and latency = no_latency, OF ok,
             THEN conjunct2, rule_format, where e = err400]
          stop err_classes(4)
    by (simp add: err400_def)
  from gone kept show ?thesis by simp
qed

section \<open>Business service: flatten and build\<close>

text \<open>
  Claim C4, as stated, fails: for a business service without a team (\<open>Team\<close> nil) the
  round trip returns a non-nil team.
\<close>

theorem BusinessService_roundtrip_counterexample:
  "bs_Team service_without_team = None
   \<and> bs_Team (buildPagerdutyBusinessService (flattenBusinessService service_without_team))
       = Some \<lparr>team_ID = [], team_Type = [], team_Self = []\<rparr>
   \<and> bs_Team (buildPagerdutyBusinessService (flattenBusinessService service_without_team))
       \<noteq> bs_Team service_without_team"
  by (simp add: service_without_team_def buildPagerdutyBusinessService_def
        flattenBusinessService_def)

text \<open>
  Claim C4, amended. For every wire-format business service \<open>src\<close>, building from the
  flattened model gives a business service equal to \<open>src\<close> in the fields ID, Name,
  Description, HTMLUrl, Self, Summary, Type and PointOfContact. Its Team is never nil:
  it is a team that carries only an ID, the ID of \<open>src.Team\<close> when \<open>src.Team\<close> is not
  nil and the empty ID when it is nil.
\<close>

theorem BusinessService_roundtrip:
  "bs_ID (buildPagerdutyBusinessService (flattenBusinessService src)) = bs_ID src
   \<and> bs_Name (buildPagerdutyBusinessService (flattenBusinessService src)) = bs_Name src
   \<and> bs_Description (buildPagerdutyBusinessService (flattenBusinessService src)) = bs_Description src
   \<and> bs_HTMLUrl (buildPagerdutyBusinessService (flattenBusinessService src)) = bs_HTMLUrl src
   \<and> bs_Self (buildPagerdutyBusinessService (flattenBusinessService src)) = bs_Self src
   \<and> bs_Summary (buildPagerdutyBusinessService (flattenBusinessService src)) = bs_Summary src
   \<and> bs_Type (buildPagerdutyBusinessService (flattenBusinessService src)) = bs_Type src
   \<and> bs_PointOfContact (buildPagerdutyBusinessService (flattenBusinessService src))
       = bs_PointOfContact src
   \<and> bs_Team (buildPagerdutyBusinessService (flattenBusinessService src))
       = Some \<lparr>team_ID = (case bs_Team src of Some team \<Rightarrow> team_ID team | None \<Rightarrow> []),
               team_Type = [], team_Self = []\<rparr>"
  by (cases "bs_Team src")
     (simp_all add: buildPagerdutyBusinessService_def flattenBusinessService_def Let_def)

theorem BusinessService_roundtrip_witness:
  "buildPagerdutyBusinessService (flattenBusinessService service_with_team) = service_with_team"
proof -
  note rt = BusinessService_roundtrip [of service_with_team]
  have "bs_Team service_with_team = Some \<lparr>team_ID = ''T1'', team_Type = [], team_Self = []\<rparr>"
    by (simp add: service_with_team_def)
  with rt show ?thesis
    by (intro BusinessService.equality) simp_all
qed

section \<open>Selecting a user contact method\<close>

lemma findContactMethod_find:
  "findContactMethod l t cms None = List.find (\<lambda>cm. cm_Label cm = l \<or> cm_Type cm = t) cms"
  by (induction cms) simp_all

lemma findContactMethod_skip:
  "\<forall>x\<in>set before. cm_Label x \<noteq> l \<and> cm_Type x \<noteq> t \<Longrightarrow>
   findContactMethod l t (before @ rest) found = findContactMethod l t rest found"
  by (induction before) simp_all

lemma RetryContext_first_success:
  "0 < T \<Longrightarrow> f 0 s = (None, s') \<Longrightarrow>
   RetryContext T latency f s = \<lparr>rerr = None, rst = s', calls = 1, waited = 0\<rparr>"
  unfolding RetryContext_def
  using RetryLoop_success [where f = f and n = 0 and s = s and s' = s' and elapsed = 0]
  by simp

text \<open>
  Claim C10. The search of \<open>dataSourceUserContactMethod.Read\<close> returns the first
  contact method of the listing whose label equals the requested label or whose type
  equals the requested type. So when a method that has the requested type but another
  label stands before every method with the requested label, that method is the one
  selected and stored in the state.
\<close>

theorem user_contact_method_label_or_type:
  "findContactMethod l t cms None = List.find (\<lambda>cm. cm_Label cm = l \<or> cm_Type cm = t) cms
   \<and> ((\<forall>x\<in>set before. cm_Label x \<noteq> l \<and> cm_Type x \<noteq> t)
        \<and> cm_Type cm = t \<and> cm_Label cm \<noteq> l
        \<longrightarrow> findContactMethod l t (before @ cm # rest) None = Some cm)
   \<and> ((\<forall>x\<in>set before. cm_Label x \<noteq> ValueString (snd getLabel)
                        \<and> cm_Type x \<noteq> ValueString (snd getType))
        \<and> cm_Type cm = ValueString (snd getType) \<and> cm_Label cm \<noteq> ValueString (snd getLabel)
        \<and> \<not> HasError (Diagnostics resp @ fst getUserID @ fst getLabel @ fst getType)
        \<and> client 0 = Inr (before @ cm # rest)
        \<longrightarrow> (\<exists>m. State (dataSourceUserContactMethod_Read latency client getUserID getLabel getType resp)
                   = Some m
                 \<and> cmm_ID m = StringValue (cm_ID cm)
                 \<and> cmm_Label m = StringValue (cm_Label cm)
                 \<and> cmm_Type m = StringValue (cm_Type cm)))"
proof (intro conjI impI)
  show "findContactMethod l t cms None = List.find (\<lambda>cm. cm_Label cm = l \<or> cm_Type cm = t) cms"
    by (rule findContactMethod_find)
next
  assume "(\<forall>x\<in>set before. cm_Label x \<noteq> l \<and> cm_Type x \<noteq> t)
        \<and> cm_Type cm = t \<and> cm_Label cm \<noteq> l"
  then show "findContactMethod l t (before @ cm # rest) None = Some cm"
    by (simp add: findContactMethod_skip)
next
  let ?l = "ValueString (snd getLabel)" and ?t = "ValueString (snd getType)"
  assume a: "(\<forall>x\<in>set before. cm_Label x \<noteq> ?l \<and> cm_Type x \<noteq> ?t)
        \<and> cm_Type cm = ?t \<and> cm_Label cm \<noteq> ?l
        \<and> \<not> HasError (Diagnostics resp @ fst getUserID @ fst getLabel @ fst getType)
        \<and> client 0 = Inr (before @ cm # rest)"
  then have found: "findContactMethod ?l ?t (before @ cm # rest) None = Some cm"
    by (simp add: findContactMethod_skip)
  have r: "dataSourceUserContactMethod_Read_retry latency client ?l ?t =
      \<lparr>rerr = None, rst = Some cm, calls = 1, waited = 0\<rparr>"
    unfolding dataSourceUserContactMethod_Read_retry_def
    by (rule RetryContext_first_success)
       (use a found in \<open>simp_all add: UserContactMethod_Read_attempt_def Minute_def Second_def\<close>)
  from a have d: "\<not> HasError (Diagnostics resp @ fst getUserID)"
      "\<not> HasError (Diagnostics resp @ fst getUserID @ fst getLabel)"
      "\<not> HasError (Diagnostics resp @ fst getUserID @ fst getLabel @ fst getType)"
    by (auto simp: HasError_def)
  show "\<exists>m. State (dataSourceUserContactMethod_Read latency client getUserID getLabel getType resp)
                   = Some m
                 \<and> cmm_ID m = StringValue (cm_ID cm)
                 \<and> cmm_Label m = StringValue (cm_Label cm)
                 \<and> cmm_Type m = StringValue (cm_Type cm)"
    using d by (simp add: dataSourceUserContactMethod_Read_def Let_def r State_Set_def)
qed

theorem user_contact_method_label_or_type_witness:
  "cm_Label cm_home = ''Home'' \<and> cm_Label cm_sms \<noteq> ''Home''
   \<and> findContactMethod ''Home'' ''sms_contact_method'' [cm_sms, cm_home] None = Some cm_sms
   \<and> (\<exists>m. State (dataSourceUserContactMethod_Read no_latency listing_sms_then_home
                    ([], StringValue ''U1'') ([], StringValue ''Home'')
                    ([], StringValue ''sms_contact_method'')
                    \<lparr>Diagnostics = [], State = None\<rparr>) = Some m
          \<and> cmm_ID m = StringValue ''C1'')"
proof -
  note t = user_contact_method_label_or_type
      [where before = "[]" and cm = cm_sms and rest = "[cm_home]"
         and l = "''Home''" and t = "''sms_contact_method''"
         and getUserID = "([], StringValue ''U1'')" and getLabel = "([], StringValue ''Home'')"
         and getType = "([], StringValue ''sms_contact_method'')"
         and resp = "\<lparr>Diagnostics = [], State = None\<rparr>"
         and client = listing_sms_then_home and latency = no_latency]
  have sel: "findContactMethod ''Home'' ''sms_contact_method'' [cm_sms, cm_home] None = Some cm_sms"
    using t [THEN conjunct2, THEN conjunct1] by (simp add: cm_sms_def)
  have "\<exists>m. State (dataSourceUserContactMethod_Read no_latency listing_sms_then_home
                    ([], StringValue ''U1'') ([], StringValue ''Home'')
                    ([], StringValue ''sms_contact_method'')
                    \<lparr>Diagnostics = [], State = None\<rparr>) = Some m
          \<and> cmm_ID m = StringValue (cm_ID cm_sms)
          \<and> cmm_Label m = StringValue (cm_Label cm_sms)
          \<and> cmm_Type m = StringValue (cm_Type cm_sms)"
    using t [THEN conjunct2, THEN conjunct2]
    by (simp add: cm_sms_def listing_sms_then_home_def HasError_def)
  with sel show ?thesis by (auto simp: cm_sms_def cm_home_def)
qed

section \<open>Client construction: the endpoint\<close>

lemma applyOption_endpoint:
  "\<forall>u. opt \<noteq> WithAPIEndpoint u \<Longrightarrow> apiEndpoint (applyOption opt c) = apiEndpoint c"
  by (cases opt) (auto split: option.splits)

lemma foldl_applyOption_endpoint:
  "\<forall>opt\<in>set opts. \<forall>u. opt \<noteq> WithAPIEndpoint u \<Longrightarrow>
   apiEndpoint (foldl (\<lambda>c opt. applyOption opt c) c0 opts) = apiEndpoint c0"
  by (induction opts arbitrary: c0) (simp_all add: applyOption_endpoint)

lemma getClient_Inr_endpoint:
  assumes "\<forall>opt\<in>set opts. \<forall>u. opt \<noteq> WithAPIEndpoint u"
    and "getClient c listAbilities token opts = Inr client"
  shows "apiEndpoint client = (if APIURLOverride c \<noteq> [] then APIURLOverride c else APIURL c)"
proof -
  let ?base = "[WithHTTPClient (Some \<lparr>Timeout = 1 * Minute, InsecureSkipVerify = InsecureTls c\<rparr>),
                WithAPIEndpoint (if APIURLOverride c \<noteq> [] then APIURLOverride c else APIURL c),
                WithTerraformProvider (TerraformVersion c),
                WithRetryPolicy 1 60]"
  from assms(2) have "client = NewClient token (?base @ opts)"
    by (auto simp: getClient_def Let_def split: if_splits option.splits)
  then have "apiEndpoint client =
      apiEndpoint (foldl (\<lambda>c opt. applyOption opt c) (defaultClient token) ?base)"
    using foldl_applyOption_endpoint [OF assms(1)]
    by (simp only: NewClient_def foldl_append)
  then show ?thesis by simp
qed

text \<open>
  Claim C5. The client that \<open>getClient\<close> returns has \<open>APIURLOverride\<close> as its API
  endpoint when that string is not empty, and \<open>APIURL\<close> otherwise; \<open>getClient\<close> returns a
  client whenever the credential check is skipped or succeeds. This holds for the
  options its two callers, \<open>Client\<close> and \<open>SlackClient\<close>, pass on (none of them sets the
  endpoint).
\<close>

theorem getClient_endpoint_override:
  "(\<forall>client.
      (\<forall>opt\<in>set opts. \<forall>u. opt \<noteq> WithAPIEndpoint u)
      \<and> getClient c listAbilities token opts = Inr client
      \<longrightarrow> apiEndpoint client = (if APIURLOverride c \<noteq> [] then APIURLOverride c else APIURL c))
   \<and> (SkipCredsValidation c \<or> listAbilities = None
      \<longrightarrow> (\<exists>client. getClient c listAbilities token opts = Inr client))
   \<and> (\<forall>client.
      Config_Client c tokenFile listAbilities = Inr client
      \<longrightarrow> apiEndpoint client = (if APIURLOverride c \<noteq> [] then APIURLOverride c else APIURL c))
   \<and> (\<forall>client.
      Config_SlackClient c listAbilities = Inr client
      \<longrightarrow> apiEndpoint client = (if APIURLOverride c \<noteq> [] then APIURLOverride c else APIURL c))"
proof (intro conjI allI impI)
  fix client
  assume "(\<forall>opt\<in>set opts. \<forall>u. opt \<noteq> WithAPIEndpoint u)
      \<and> getClient c listAbilities token opts = Inr client"
  then show "apiEndpoint client = (if APIURLOverride c \<noteq> [] then APIURLOverride c else APIURL c)"
    using getClient_Inr_endpoint by blast
next
  assume "SkipCredsValidation c \<or> listAbilities = None"
  then show "\<exists>client. getClient c listAbilities token opts = Inr client"
    by (auto simp: getClient_def Let_def)
next
  fix client
  assume a: "Config_Client c tokenFile listAbilities = Inr client"
  show "apiEndpoint client = (if APIURLOverride c \<noteq> [] then APIURLOverride c else APIURL c)"
  proof (cases "AppOauthScopedToken c")
    case None
    with a have "getClient c listAbilities (Token c) [] = Inr client"
      by (simp add: Config_Client_def split: if_splits)
    then show ?thesis by (intro getClient_Inr_endpoint [where opts = "[]"]) simp_all
  next
    case (Some t)
    let ?opts = "[WithScopedOAuthAppTokenSource (ClientID t) (ClientSecret t)
                    ([''as_account-'' @ ServiceRegion c @ ''.'' @ Subdomain t] @ availableOauthScopes)
                    tokenFile]"
    from a Some have "getClient c listAbilities (Token c) ?opts = Inr client"
      by (simp add: Config_Client_def Let_def)
    then show ?thesis by (intro getClient_Inr_endpoint [where opts = ?opts]) simp_all
  qed
next
  fix client
  assume "Config_SlackClient c listAbilities = Inr client"
  then have "getClient c listAbilities (UserToken c) [] = Inr client"
    by (simp add: Config_SlackClient_def split: if_splits)
  then show "apiEndpoint client = (if APIURLOverride c \<noteq> [] then APIURLOverride c else APIURL c)"
    by (intro getClient_Inr_endpoint [where opts = "[]"]) simp_all
qed

theorem getClient_endpoint_override_witness:
  "(\<exists>client. getClient example_config None ''secret'' [] = Inr client
        \<and> apiEndpoint client = ''https://api.eu.pagerduty.com'')
   \<and> (\<exists>client. getClient (example_config\<lparr>APIURLOverride := []\<rparr>) None ''secret'' [] = Inr client
        \<and> apiEndpoint client = ''https://api.pagerduty.com'')"
proof -
  note t1 = getClient_endpoint_override
      [where c = example_config and listAbilities = None and token = "''secret''" and opts = "[]"]
  note t2 = getClient_endpoint_override
      [where c = "example_config\<lparr>APIURLOverride := []\<rparr>" and listAbilities = None
         and token = "''secret''" and opts = "[]"]
  from t1 [THEN conjunct2, THEN conjunct1] obtain c1 where
    c1: "getClient example_config None ''secret'' [] = Inr c1" by auto
  from t2 [THEN conjunct2, THEN conjunct1] obtain c2 where
    c2: "getClient (example_config\<lparr>APIURLOverride := []\<rparr>) None ''secret'' [] = Inr c2" by auto
  from t1 [THEN conjunct1, rule_format, of c1] c1
  have "apiEndpoint c1 = ''https://api.eu.pagerduty.com''"
    by (simp add: example_config_def)
  moreover from t2 [THEN conjunct1, rule_format, of c2] c2
  have "apiEndpoint c2 = ''https://api.pagerduty.com''"
    by (simp add: example_config_def)
  ultimately show ?thesis using c1 c2 by blast
qed

section \<open>Service dependency: update\<close>

text \<open>
  Claim C6. \<open>resourceServiceDependency.Update\<close>, for every request (plan, prior state and
  configuration) and every response it is handed: it does nothing to the world (no API
  call, no use of the mutex), leaves the state of the response as it is, and adds one
  warning diagnostic and no error.
\<close>

theorem service_dependency_Update_no_effect:
  "fst (resourceServiceDependency_Update req resp) = []
   \<and> State (snd (resourceServiceDependency_Update req resp)) = State resp
   \<and> Diagnostics (snd (resourceServiceDependency_Update req resp))
       = Diagnostics resp
         @ [WarningDiagnostic (Plain ''Update for service dependency has no effect'') []]
   \<and> HasError (Diagnostics (snd (resourceServiceDependency_Update req resp)))
       = HasError (Diagnostics resp)"
  by (simp add: resourceServiceDependency_Update_def AddWarning_def HasError_def)

theorem service_dependency_Update_no_effect_witness:
  "fst (resourceServiceDependency_Update service_with_team
          \<lparr>Diagnostics = [], State = Some service_without_team\<rparr>) = []
   \<and> State (snd (resourceServiceDependency_Update service_with_team
                   \<lparr>Diagnostics = [], State = Some service_without_team\<rparr>))
       = Some service_without_team
   \<and> Diagnostics (snd (resourceServiceDependency_Update service_with_team
                         \<lparr>Diagnostics = [], State = Some service_without_team\<rparr>))
       = [WarningDiagnostic (Plain ''Update for service dependency has no effect'') []]"
  using service_dependency_Update_no_effect
          [of service_with_team "\<lparr>Diagnostics = [], State = Some service_without_team\<rparr>"]
  by simp

section \<open>Service dependency: the mutex around the association call\<close>

lemma Create_suffix_cases:
  assumes "\<exists>tr\<in>Create_traces. suffix t tr"
  shows "t = [] \<or> t = Create_trace
       \<or> t = [CallBegin AssociateServiceDependencies, CallEnd AssociateServiceDependencies, MuUnlock]
       \<or> t = [CallEnd AssociateServiceDependencies, MuUnlock]
       \<or> t = [MuUnlock]"
  using assms by (auto simp: Create_traces_def Create_trace_def suffix_Cons)

lemma Create_suffix_tl:
  assumes "\<exists>tr\<in>Create_traces. suffix (a # rest) tr"
  shows "\<exists>tr\<in>Create_traces. suffix rest tr"
  using assms by (meson suffix_ConsD)

lemma in_call_holds:
  assumes "\<exists>tr\<in>Create_traces. suffix t tr" and "in_call AssociateServiceDependencies t"
  shows "holds t"
  using Create_suffix_cases [OF assms(1)] assms(2)
  by (auto simp: Create_trace_def)

lemma mutex_inv_initial:
  assumes "set ts \<subseteq> Create_traces"
  shows "mutex_inv (initial ts)"
proof -
  have "\<not> holds t" if "t \<in> set ts" for t
    using that assms by (auto simp: Create_traces_def)
  moreover have "\<exists>tr\<in>Create_traces. suffix t tr" if "t \<in> set ts" for t
    using that assms by blast
  ultimately show ?thesis
    by (auto simp: mutex_inv_def initial_def)
qed

lemma mutex_inv_step:
  assumes "step s s'" and inv: "mutex_inv s"
  shows "mutex_inv s'"
  using assms(1)
proof cases
  case (step_thread i a rest)
  let ?ts = "threads s"
  from inv have suf: "\<forall>t\<in>set ?ts. \<exists>tr\<in>Create_traces. suffix t tr"
    and uniq: "\<And>j k. j < length ?ts \<Longrightarrow> k < length ?ts \<Longrightarrow> holds (?ts ! j) \<Longrightarrow>
                 holds (?ts ! k) \<Longrightarrow> j = k"
    and lk: "locked s = (\<exists>j<length ?ts. holds (?ts ! j))"
    unfolding mutex_inv_def by blast+
  from step_thread(2) have mem: "?ts ! i \<in> set ?ts" by simp
  with suf have si: "\<exists>tr\<in>Create_traces. suffix (?ts ! i) tr" by blast
  then have sr: "\<exists>tr\<in>Create_traces. suffix rest tr"
    unfolding step_thread(3) by (rule Create_suffix_tl)
  have A: "\<forall>t\<in>set (threads s'). \<exists>tr\<in>Create_traces. suffix t tr"
  proof
    fix t assume "t \<in> set (threads s')"
    then have "t \<in> insert rest (set ?ts)"
      unfolding step_thread(1) using set_update_subset_insert [of ?ts i rest] by auto
    with sr suf show "\<exists>tr\<in>Create_traces. suffix t tr" by blast
  qed
  have len: "length (threads s') = length ?ts" unfolding step_thread(1) by simp
  have nth: "threads s' ! j = (if j = i then rest else ?ts ! j)" if "j < length ?ts" for j
    unfolding step_thread(1) using that by (simp add: nth_list_update)
  from Create_suffix_cases [OF si] step_thread(3)
  consider
      (lock) "a = MuLock" "holds rest" "\<not> holds (?ts ! i)"
    | (call) "a \<noteq> MuLock" "a \<noteq> MuUnlock" "holds rest" "holds (?ts ! i)"
    | (unlock) "a = MuUnlock" "\<not> holds rest" "holds (?ts ! i)"
    by (auto simp: Create_trace_def)
  then have BC: "(\<forall>j k. j < length ?ts \<and> k < length ?ts
                \<and> holds (threads s' ! j) \<and> holds (threads s' ! k) \<longrightarrow> j = k)
      \<and> (locked s' = (\<exists>j<length ?ts. holds (threads s' ! j)))"
  proof cases
    case lock
    with step_thread(4) have "\<not> locked s" by simp
    with lk have none: "\<And>j. j < length ?ts \<Longrightarrow> \<not> holds (?ts ! j)" by blast
    have h: "holds (threads s' ! j) = (j = i)" if "j < length ?ts" for j
      using that none lock(2) by (simp add: nth)
    have "locked s' = True" unfolding step_thread(1) using lock(1) by simp
    with h step_thread(2) show ?thesis by auto
  next
    case call
    have h: "holds (threads s' ! j) = holds (?ts ! j)" if "j < length ?ts" for j
      using that call by (simp add: nth)
    have "locked s' = locked s"
      unfolding step_thread(1) using call(1,2) by (cases a) simp_all
    with h uniq lk show ?thesis by auto
  next
    case unlock
    have others: "\<not> holds (?ts ! j)" if "j < length ?ts" "j \<noteq> i" for j
      using uniq [OF that(1) step_thread(2)] unlock(3) that(2) by blast
    have h: "\<not> holds (threads s' ! j)" if "j < length ?ts" for j
      using that others unlock(2) by (simp add: nth)
    have "locked s' = False" unfolding step_thread(1) using unlock(1) by simp
    with h show ?thesis by auto
  qed
  from A BC len show ?thesis
    unfolding mutex_inv_def by simp
qed

lemma mutex_inv_reachable:
  assumes "reachable (initial ts) s" and "set ts \<subseteq> Create_traces"
  shows "mutex_inv s"
  using assms
proof (induction rule: reachable.induct)
  case reachable_init
  then show ?case by (rule mutex_inv_initial)
next
  case (reachable_step s s')
  then show ?case using mutex_inv_step by blast
qed

lemma Create_trace_in_traces:
  "fst (resourceServiceDependency_Create build flatten planGet associate resp) \<in> Create_traces"
  by (auto simp: resourceServiceDependency_Create_def Create_traces_def Let_def
           split: option.splits sum.splits)

text \<open>
  Claim C7. \<open>resourceServiceDependency.Create\<close>, the one place of the source that
  calls the association endpoint, either does nothing to the world or locks
  \<open>resourceServiceDependencyMu\<close>, calls the endpoint and unlocks. In every state that
  concurrently running \<open>Create\<close> operations can reach, an operation that is inside the
  association call holds the locked mutex, and no two operations are inside the call at
  the same time.
\<close>

theorem associate_under_mutex:
  "fst (resourceServiceDependency_Create build flatten planGet associate resp) \<in> Create_traces
   \<and> (\<forall>ts s i j.
        set ts \<subseteq> Create_traces \<and> reachable (initial ts) s
        \<and> i < length (threads s) \<and> j < length (threads s)
        \<and> in_call AssociateServiceDependencies (threads s ! i)
        \<and> in_call AssociateServiceDependencies (threads s ! j)
        \<longrightarrow> i = j)
   \<and> (\<forall>ts s i.
        set ts \<subseteq> Create_traces \<and> reachable (initial ts) s
        \<and> i < length (threads s)
        \<and> in_call AssociateServiceDependencies (threads s ! i)
        \<longrightarrow> locked s \<and> holds (threads s ! i))"
proof (intro conjI allI impI)
  show "fst (resourceServiceDependency_Create build flatten planGet associate resp) \<in> Create_traces"
    by (rule Create_trace_in_traces)
next
  fix ts s i j
  assume a: "set ts \<subseteq> Create_traces \<and> reachable (initial ts) s
        \<and> i < length (threads s) \<and> j < length (threads s)
        \<and> in_call AssociateServiceDependencies (threads s ! i)
        \<and> in_call AssociateServiceDependencies (threads s ! j)"
  then have inv: "mutex_inv s" using mutex_inv_reachable by blast
  from inv a have "holds (threads s ! i)" "holds (threads s ! j)"
    unfolding mutex_inv_def by (auto intro!: in_call_holds)
  with inv a show "i = j" unfolding mutex_inv_def by blast
next
  fix ts s i
  assume a: "set ts \<subseteq> Create_traces \<and> reachable (initial ts) s
        \<and> i < length (threads s)
        \<and> in_call AssociateServiceDependencies (threads s ! i)"
  then have inv: "mutex_inv s" using mutex_inv_reachable by blast
  from inv a have h: "holds (threads s ! i)"
    unfolding mutex_inv_def by (auto intro!: in_call_holds)
  with inv a show "locked s" and "holds (threads s ! i)"
    unfolding mutex_inv_def by blast+
qed

lemma one_in_call_reachable:
  "reachable (initial [Create_trace, Create_trace]) one_in_call"
proof -
  let ?s0 = "initial [Create_trace, Create_trace]"
  let ?s1 = "\<lparr>locked = True,
              threads = [[CallBegin AssociateServiceDependencies,
                          CallEnd AssociateServiceDependencies, MuUnlock], Create_trace]\<rparr>"
  have r0: "reachable ?s0 ?s0" by (rule reachable_init)
  have "step ?s0 \<lparr>locked = effect MuLock (locked ?s0),
                   threads = (threads ?s0)[0 := [CallBegin AssociateServiceDependencies,
                          CallEnd AssociateServiceDependencies, MuUnlock]]\<rparr>"
    by (rule step_thread) (simp_all add: initial_def Create_trace_def)
  then have s1: "step ?s0 ?s1" by (simp add: initial_def)
  have "step ?s1 \<lparr>locked = effect (CallBegin AssociateServiceDependencies) (locked ?s1),
                   threads = (threads ?s1)[0 := [CallEnd AssociateServiceDependencies, MuUnlock]]\<rparr>"
    by (rule step_thread) simp_all
  then have s2: "step ?s1 one_in_call" by (simp add: one_in_call_def)
  from r0 s1 have "reachable ?s0 ?s1" by (rule reachable_step)
  then show ?thesis using s2 by (rule reachable_step)
qed

theorem associate_under_mutex_witness:
  "reachable (initial [Create_trace, Create_trace]) one_in_call
   \<and> in_call AssociateServiceDependencies (threads one_in_call ! 0)
   \<and> locked one_in_call
   \<and> holds (threads one_in_call ! 0)
   \<and> \<not> in_call AssociateServiceDependencies (threads one_in_call ! 1)"
proof -
  have sub: "set [Create_trace, Create_trace] \<subseteq> Create_traces"
    by (simp add: Create_traces_def Create_trace_def)
  have c: "in_call AssociateServiceDependencies (threads one_in_call ! 0)"
    by (simp add: one_in_call_def)
  have l: "0 < length (threads one_in_call)" "1 < length (threads one_in_call)"
    by (simp_all add: one_in_call_def)
  note t = associate_under_mutex
      [where build = "\<lambda>m. (m, [])" and flatten = "\<lambda>l. (service_with_team, [])"
         and planGet = "([], service_with_team)" and associate = Inr
         and resp = "\<lparr>Diagnostics = [], State = None\<rparr>"]
  from t [THEN conjunct2, THEN conjunct2, rule_format,
          of "[Create_trace, Create_trace]" one_in_call 0]
       sub one_in_call_reachable l(1) c
  have h: "locked one_in_call \<and> holds (threads one_in_call ! 0)" by blast
  have "\<not> in_call AssociateServiceDependencies (threads one_in_call ! 1)"
  proof
    assume "in_call AssociateServiceDependencies (threads one_in_call ! 1)"
    with t [THEN conjunct2, THEN conjunct1, rule_format,
            of "[Create_trace, Create_trace]" one_in_call 0 1]
         sub one_in_call_reachable l c
    have "(0::nat) = 1" by blast
    then show False by simp
  qed
  with one_in_call_reachable c h show ?thesis by blast
qed

section \<open>Slack connection config: the star wildcard\<close>

lemma buildPagerdutySlackConnectionConfig_result:
  "buildPagerdutySlackConnectionConfig ElementsAs_value ElementsAs_pointer list diags =
     (if HasError (ElementsAs_value list) then Inr (None, diags) else Inl IndexOutOfRange)"
  by (simp add: buildPagerdutySlackConnectionConfig_def)

lemma flattenSlackConnectionConfig_nil_priorities:
  "scc_Priorities cfg = None \<Longrightarrow>
   \<exists>obj. flattenSlackConnectionConfig (Some cfg) = Inr (ListValue [obj])
       \<and> sco_Priorities obj = ListValue [StringValue ''*'']"
  by (simp add: flattenSlackConnectionConfig_def flattenStringList_def StarWildcardConfig_def)

text \<open>
  Claim C9 says that \<open>buildPagerdutySlackConnectionConfig\<close> maps the priorities list
  \<open>["*"]\<close> to a nil priorities slice. The code does not: the first \<open>ElementsAs\<close> is given
  the slice \<open>target\<close> and not a pointer to it, so for the config list with priorities
  \<open>["*"]\<close>, and whatever \<open>ElementsAs\<close> answers, the function either returns a nil config
  or panics at \<open>target[0]\<close>; it never returns a config.
\<close>

theorem slack_config_star_not_built:
  "buildPagerdutySlackConnectionConfig ElementsAs_value ElementsAs_pointer star_config diags =
     (if HasError (ElementsAs_value star_config) then Inr (None, diags) else Inl IndexOutOfRange)
   \<and> (\<forall>cfg d. buildPagerdutySlackConnectionConfig ElementsAs_value ElementsAs_pointer
                 star_config diags \<noteq> Inr (Some cfg, d))"
  by (simp add: buildPagerdutySlackConnectionConfig_result)

end
